theory Spec2Isabelle
  imports Complex_Main "HOL-Library.Sublist"
begin

section \<open>csvkit-next: a shallow embedding of \<^verbatim>\<open>src/index.js\<close>\<close>

text \<open>
  The library parses delimited text into an array of plain JavaScript objects
  (\<^verbatim>\<open>parseCSV\<close>), writes such an array back to text (\<^verbatim>\<open>stringifyCSV\<close>) and offers row
  operations on it (\<^verbatim>\<open>filter\<close>, \<^verbatim>\<open>transform\<close>, \<^verbatim>\<open>head\<close>, \<^verbatim>\<open>tail\<close>, ...).

  Conventions of the embedding:
  \<^item> a JavaScript string is a \<open>string\<close> (a list of code units; the code units are those
    below 256, so the classes \<^verbatim>\<open>\s\<close>, \<^verbatim>\<open>\w\<close> and the line terminators are cut to that range);
  \<^item> a JavaScript number is a \<open>jsnum\<close>: a finite double (the rational it denotes), an
    infinity or NaN; the sign of zero is not tracked, no operation below tells \<^verbatim>\<open>-0\<close>
    from \<^verbatim>\<open>0\<close>;
  \<^item> a plain object is the list of its own enumerable properties in the order
    \<^verbatim>\<open>Object.keys\<close> lists them; its prototype is \<^verbatim>\<open>Object.prototype\<close>;
  \<^item> an exception is the \<open>Inl\<close> of a result \<open>error + 'a\<close>;
  \<^item> what the code asks of the JavaScript engine and is not written out here (the
    regular-expression engine, \<^verbatim>\<open>eval\<close>, the printing of numbers and of objects) is a
    parameter \<open>js\<close> of type \<open>platform\<close>.
\<close>

subsection \<open>Strings\<close>

definition charCode :: "char \<Rightarrow> nat" where
  "charCode c = of_char c"

abbreviation quoteChar :: char where
  "quoteChar \<equiv> CHR 0x22"

abbreviation LF :: char where
  "LF \<equiv> CHR 0x0A"

abbreviation CR :: char where
  "CR \<equiv> CHR 0x0D"

text \<open>\<^verbatim>\<open>\s\<close>, and the white space \<^verbatim>\<open>parseFloat\<close> skips: TAB, LF, VT, FF, CR, SP, NBSP.\<close>

definition isWhiteSpace :: "char \<Rightarrow> bool" where
  "isWhiteSpace c = (charCode c \<in> {9, 10, 11, 12, 13, 32, 160})"

text \<open>The characters \<^verbatim>\<open>.\<close> does not match.\<close>

definition isLineTerminator :: "char \<Rightarrow> bool" where
  "isLineTerminator c = (c = LF \<or> c = CR)"

definition isDigit :: "char \<Rightarrow> bool" where
  "isDigit c = (48 \<le> charCode c \<and> charCode c \<le> 57)"

text \<open>\<^verbatim>\<open>\w\<close> is \<^verbatim>\<open>[A-Za-z0-9_]\<close>.\<close>

definition isWordChar :: "char \<Rightarrow> bool" where
  "isWordChar c =
     ((65 \<le> charCode c \<and> charCode c \<le> 90) \<or> (97 \<le> charCode c \<and> charCode c \<le> 122)
      \<or> isDigit c \<or> c = CHR ''_'')"

definition decimalValue :: "string \<Rightarrow> int" where
  "decimalValue ds = foldl (\<lambda>acc c. 10 * acc + (int (charCode c) - 48)) 0 ds"

text \<open>\<^verbatim>\<open>s.includes(t)\<close>: \<open>t\<close> occurs in \<open>s\<close> as a substring.\<close>

fun str_includes :: "string \<Rightarrow> string \<Rightarrow> bool" where
  "str_includes [] t = (t = [])"
| "str_includes (c # s) t = (prefix t (c # s) \<or> str_includes s t)"

definition str_startsWith :: "string \<Rightarrow> string \<Rightarrow> bool" where
  "str_startsWith s t = prefix t s"

definition str_endsWith :: "string \<Rightarrow> string \<Rightarrow> bool" where
  "str_endsWith s t = suffix t s"

text \<open>\<^verbatim>\<open>toLowerCase\<close> on the code units below 256: A-Z, and the Latin-1 capitals but the
  multiplication sign.\<close>

definition lowerChar :: "char \<Rightarrow> char" where
  "lowerChar c =
     (let n = charCode c
      in if (65 \<le> n \<and> n \<le> 90) \<or> (192 \<le> n \<and> n \<le> 222 \<and> n \<noteq> 215) then char_of (n + 32) else c)"

definition str_toLowerCase :: "string \<Rightarrow> string" where
  "str_toLowerCase s = map lowerChar s"

text \<open>\<^verbatim>\<open>xs.join(sep)\<close> on an array of strings.\<close>

fun arr_join :: "string list \<Rightarrow> string \<Rightarrow> string" where
  "arr_join [] sep = []"
| "arr_join [x] sep = x"
| "arr_join (x # y # xs) sep = x @ sep @ arr_join (y # xs) sep"

text \<open>\<^verbatim>\<open>str.replace(/"/g, '""')\<close>: every quote character is doubled.\<close>

definition doubleQuotes :: "string \<Rightarrow> string" where
  "doubleQuotes str = concat (map (\<lambda>c. if c = quoteChar then [quoteChar, quoteChar] else [c]) str)"

subsection \<open>Numbers\<close>

datatype jsnum = NaN | NegInfinity | Finite rat | PosInfinity

definition isNaN :: "jsnum \<Rightarrow> bool" where
  "isNaN x = (x = NaN)"

definition negate :: "jsnum \<Rightarrow> jsnum" where
  "negate x =
     (case x of NaN \<Rightarrow> NaN | NegInfinity \<Rightarrow> PosInfinity | PosInfinity \<Rightarrow> NegInfinity
      | Finite q \<Rightarrow> Finite (- q))"

text \<open>Rounding a rational to the nearest double, ties to even (the Number value for a
  mathematical value): \<open>scale2 q p\<close> is \<open>q * 2^p\<close>, \<open>floorLog2 q\<close> the exponent of the
  binade of \<open>q\<close>.\<close>

function bitLength :: "int \<Rightarrow> int" where
  "bitLength n = (if n \<le> 0 then 0 else 1 + bitLength (n div 2))"
  by pat_completeness auto
termination
  by (relation "measure nat") auto

definition scale2 :: "rat \<Rightarrow> int \<Rightarrow> rat" where
  "scale2 q p = (if 0 \<le> p then q * 2 ^ nat p else q / 2 ^ nat (- p))"

definition floorLog2 :: "rat \<Rightarrow> int" where
  "floorLog2 q =
     (let (a, b) = quotient_of q; e = bitLength a - bitLength b
      in if scale2 1 e \<le> q then e else e - 1)"

definition roundHalfEven :: "rat \<Rightarrow> int" where
  "roundHalfEven x =
     (let f = \<lfloor>x\<rfloor>; d = x - of_int f
      in if d < 1 / 2 then f else if 1 / 2 < d then f + 1 else if even f then f else f + 1)"

definition roundToDouble :: "rat \<Rightarrow> jsnum" where
  "roundToDouble q =
     (if q = 0 then Finite 0
      else
        let a = \<bar>q\<bar>; e = floorLog2 a
        in if 1024 \<le> e then (if q < 0 then NegInfinity else PosInfinity)
           else
             let p = max e (- 1022) - 52; m = roundHalfEven (scale2 a (- p))
             in if p = 971 \<and> m = 2 ^ 53 then (if q < 0 then NegInfinity else PosInfinity)
                else Finite (if q < 0 then - scale2 (of_int m) p else scale2 (of_int m) p))"

text \<open>The longest prefix of a string that is a \<^verbatim>\<open>StrDecimalLiteral\<close> (an optional sign, then
  \<^verbatim>\<open>Infinity\<close>, or digits with an optional fraction and an optional exponent), its value,
  and the rest of the string; \<open>None\<close> when no prefix is one. The value is the double nearest
  to the decimal (past the 20th significant digit the language lets an engine round the
  decimal first; the model does not).\<close>

definition scanExponent :: "string \<Rightarrow> int \<times> string" where
  "scanExponent s =
     (case s of
        [] \<Rightarrow> (0, s)
      | c # r \<Rightarrow>
          if c = CHR ''e'' \<or> c = CHR ''E'' then
            (let (neg, r') =
                   (case r of
                      [] \<Rightarrow> (False, r)
                    | d # r'' \<Rightarrow>
                        if d = CHR ''-'' then (True, r'')
                        else if d = CHR ''+'' then (False, r'') else (False, r));
                 ds = takeWhile isDigit r'
             in if ds = [] then (0, s)
                else (if neg then - decimalValue ds else decimalValue ds, dropWhile isDigit r'))
          else (0, s))"

definition scanUnsigned :: "string \<Rightarrow> (jsnum \<times> string) option" where
  "scanUnsigned s =
     (if prefix ''Infinity'' s then Some (PosInfinity, drop 8 s)
      else
        let ip = takeWhile isDigit s; r1 = dropWhile isDigit s;
            dot = (r1 \<noteq> [] \<and> hd r1 = CHR ''.'');
            fp = (if dot then takeWhile isDigit (tl r1) else []);
            r2 = (if dot then dropWhile isDigit (tl r1) else r1)
        in if ip = [] \<and> fp = [] then None
           else
             let (ex, r3) = scanExponent r2;
                 k = ex - int (length fp)
             in Some (roundToDouble (of_int (decimalValue (ip @ fp))
                        * (if 0 \<le> k then 10 ^ nat k else 1 / 10 ^ nat (- k))), r3))"

definition scanLiteral :: "string \<Rightarrow> (jsnum \<times> string) option" where
  "scanLiteral s =
     (case s of
        [] \<Rightarrow> None
      | c # r \<Rightarrow>
          if c = CHR ''-'' then map_option (\<lambda>(v, rest). (negate v, rest)) (scanUnsigned r)
          else if c = CHR ''+'' then scanUnsigned r
          else scanUnsigned s)"

text \<open>\<^verbatim>\<open>parseFloat\<close> of a string: leading white space is skipped, the longest literal
  prefix is read, anything after it is ignored.\<close>

definition parseFloatString :: "string \<Rightarrow> jsnum" where
  "parseFloatString s =
     (case scanLiteral (dropWhile isWhiteSpace s) of None \<Rightarrow> NaN | Some (v, rest) \<Rightarrow> v)"

text \<open>The abstract relational comparison \<^verbatim>\<open>x < y\<close> on numbers: undefined (\<open>None\<close>) when an
  operand is NaN. The four operators are defined from it as the language defines them.\<close>

definition isLessThan :: "jsnum \<Rightarrow> jsnum \<Rightarrow> bool option" where
  "isLessThan x y =
     (case (x, y) of
        (NaN, _) \<Rightarrow> None
      | (_, NaN) \<Rightarrow> None
      | (Finite a, Finite b) \<Rightarrow> Some (a < b)
      | (PosInfinity, _) \<Rightarrow> Some False
      | (_, PosInfinity) \<Rightarrow> Some True
      | (_, NegInfinity) \<Rightarrow> Some False
      | (NegInfinity, _) \<Rightarrow> Some True)"

definition js_lt :: "jsnum \<Rightarrow> jsnum \<Rightarrow> bool" where
  "js_lt x y = (isLessThan x y = Some True)"

definition js_gt :: "jsnum \<Rightarrow> jsnum \<Rightarrow> bool" where
  "js_gt x y = (isLessThan y x = Some True)"

definition js_lte :: "jsnum \<Rightarrow> jsnum \<Rightarrow> bool" where
  "js_lte x y = (isLessThan y x = Some False)"

definition js_gte :: "jsnum \<Rightarrow> jsnum \<Rightarrow> bool" where
  "js_gte x y = (isLessThan x y = Some False)"

subsection \<open>Values, exceptions and the engine\<close>

text \<open>A value is \<^verbatim>\<open>undefined\<close>, \<^verbatim>\<open>null\<close>, a boolean, a number, a string or an object. An
  object value is opaque: it is known by a tag only (functions and the members of
  \<^verbatim>\<open>Object.prototype\<close> are object values). Symbols and BigInts are not modelled.\<close>

datatype jsval = Undefined | Null | Boolean bool | Num jsnum | Str string | Object string

datatype error = SyntaxError | TypeError string | Error string

text \<open>A compiled regular expression is its pattern and its flags.\<close>

type_synonym regexp = "string \<times> string"

text \<open>A plain object: its own enumerable properties, in the order of \<^verbatim>\<open>Object.keys\<close>.\<close>

type_synonym jsobject = "(string \<times> jsval) list"

text \<open>What the code evaluated by the \<^verbatim>\<open>eval\<close> of \<open>transform\<close> (line 133) can read and
  write. It is a direct \<^verbatim>\<open>eval\<close>: the code runs in the scope of the callback of
  \<^verbatim>\<open>data.map\<close>, where it sees \<^verbatim>\<open>newRow\<close>, \<^verbatim>\<open>row\<close> (an element of \<^verbatim>\<open>data\<close>) and \<^verbatim>\<open>data\<close>, and it
  reaches everything else through the global object.
  \<^item> \<open>es_data\<close>: the array \<^verbatim>\<open>data\<close>, with the rows in it as they now are (an evaluation can
    write to the row in hand and to any other one, and can shorten or lengthen the array;
    an element that is not a plain object is not modelled);
  \<^item> \<open>es_newRow\<close>: the copy of the row in hand, which the callback returns;
  \<^item> \<open>es_out\<close>: the elements that \<^verbatim>\<open>map\<close> has so far, a record or a hole (\<open>None\<close>) for an
    index that \<^verbatim>\<open>data\<close> no longer had; an evaluation that has kept a reference to its
    \<^verbatim>\<open>newRow\<close> lets a later one write to a record that was returned already;
  \<^item> \<open>es_world\<close>: the rest of the state of the engine (the global object and what hangs
    on it), as a code: the model hands it from one evaluation to the next.\<close>

record evalState =
  es_data :: "jsobject list"
  es_newRow :: jsobject
  es_out :: "jsobject option list"
  es_world :: nat

text \<open>The services of the engine. \<open>RegExp_syntaxOk pattern flags\<close>: the pattern compiles;
  \<open>RegExp_test (pattern, flags) s\<close>: \<^verbatim>\<open>regex.test(s)\<close>, for a regex without the flags g and
  y; \<open>RegExp_replace (pattern, flags) s r\<close>: \<^verbatim>\<open>s.replace(regex, r)\<close> for a replacement
  string \<open>r\<close>; \<open>Number_toString\<close> and \<open>Object_toString\<close>: \<^verbatim>\<open>String(v)\<close> for a number and for
  an object.

  \<open>js_eval src k st\<close>: the direct \<^verbatim>\<open>eval(src)\<close> of line 133 in the callback for the element
  \<open>k\<close> of \<^verbatim>\<open>data\<close>, started in the state \<open>st\<close>. It is \<open>None\<close> when the evaluation does not
  return (it runs forever, or ends the process), and else the completion, a value or a
  thrown exception, with the state the evaluation leaves.\<close>

record platform =
  Number_toString :: "jsnum \<Rightarrow> string"
  Object_toString :: "string \<Rightarrow> string"
  RegExp_syntaxOk :: "string \<Rightarrow> string \<Rightarrow> bool"
  RegExp_test :: "regexp \<Rightarrow> string \<Rightarrow> bool"
  RegExp_replace :: "regexp \<Rightarrow> string \<Rightarrow> string \<Rightarrow> string"
  js_eval :: "string \<Rightarrow> nat \<Rightarrow> evalState \<Rightarrow> ((error + jsval) \<times> evalState) option"

definition ToString :: "platform \<Rightarrow> jsval \<Rightarrow> string" where
  "ToString js v =
     (case v of
        Undefined \<Rightarrow> ''undefined''
      | Null \<Rightarrow> ''null''
      | Boolean b \<Rightarrow> (if b then ''true'' else ''false'')
      | Num x \<Rightarrow> Number_toString js x
      | Str s \<Rightarrow> s
      | Object tag \<Rightarrow> Object_toString js tag)"

definition ToBoolean :: "jsval \<Rightarrow> bool" where
  "ToBoolean v =
     (case v of
        Undefined \<Rightarrow> False
      | Null \<Rightarrow> False
      | Boolean b \<Rightarrow> b
      | Num x \<Rightarrow> x \<noteq> NaN \<and> x \<noteq> Finite 0
      | Str s \<Rightarrow> s \<noteq> []
      | Object tag \<Rightarrow> True)"

text \<open>\<^verbatim>\<open>a === b\<close>: NaN is not equal to itself, objects are equal when they are the same
  object.\<close>

definition strictEquals :: "jsval \<Rightarrow> jsval \<Rightarrow> bool" where
  "strictEquals a b = (a = b \<and> a \<noteq> Num NaN)"

definition parseFloat :: "platform \<Rightarrow> jsval \<Rightarrow> jsnum" where
  "parseFloat js v = parseFloatString (ToString js v)"

text \<open>\<^verbatim>\<open>new RegExp(pattern, flags)\<close> for a string pattern: a SyntaxError when the pattern
  does not compile.\<close>

definition RegExp_new :: "platform \<Rightarrow> string \<Rightarrow> string \<Rightarrow> error + regexp" where
  "RegExp_new js pattern flags =
     (if RegExp_syntaxOk js pattern flags then Inr (pattern, flags) else Inl SyntaxError)"

subsection \<open>Plain objects\<close>

text \<open>An array index is the canonical decimal string of an integer from 0 to
  \<open>2^32 - 2\<close>. \<^verbatim>\<open>Object.keys\<close> lists the array-index keys first, in ascending numeric
  order, then the other keys in the order of their creation.\<close>

definition isArrayIndex :: "string \<Rightarrow> bool" where
  "isArrayIndex k =
     (k \<noteq> [] \<and> list_all isDigit k \<and> (k = ''0'' \<or> hd k \<noteq> CHR ''0'')
      \<and> decimalValue k < 2 ^ 32 - 1)"

definition keys :: "jsobject \<Rightarrow> string list" where
  "keys obj = map fst obj"

definition hasOwn :: "jsobject \<Rightarrow> string \<Rightarrow> bool" where
  "hasOwn obj k = (k \<in> set (keys obj))"

fun insertIndexed :: "string \<Rightarrow> jsval \<Rightarrow> jsobject \<Rightarrow> jsobject" where
  "insertIndexed k v [] = [(k, v)]"
| "insertIndexed k v ((k', v') # obj) =
     (if isArrayIndex k' \<and> decimalValue k' < decimalValue k then (k', v') # insertIndexed k v obj
      else (k, v) # (k', v') # obj)"

text \<open>\<^verbatim>\<open>obj[k] = v\<close> on a plain object. An own property is overwritten where it stands. The
  key \<^verbatim>\<open>__proto__\<close> that is not an own property reaches the setter of
  \<^verbatim>\<open>Object.prototype\<close>, which creates no property (for a \<open>v\<close> that is \<^verbatim>\<open>null\<close> or an object it
  changes the prototype, which the model does not track). Any other key becomes a new
  own property.\<close>

definition set_prop :: "jsobject \<Rightarrow> string \<Rightarrow> jsval \<Rightarrow> jsobject" where
  "set_prop obj k v =
     (if hasOwn obj k then map (\<lambda>(k', v'). if k' = k then (k', v) else (k', v')) obj
      else if k = ''__proto__'' then obj
      else if isArrayIndex k then insertIndexed k v obj
      else obj @ [(k, v)])"

text \<open>\<^verbatim>\<open>obj[k]\<close>: the own property, else the member of \<^verbatim>\<open>Object.prototype\<close> of that name (an
  object value), else \<^verbatim>\<open>undefined\<close>.\<close>

definition objectPrototypeNames :: "string list" where
  "objectPrototypeNames =
     [''constructor'', ''__defineGetter__'', ''__defineSetter__'', ''hasOwnProperty'',
      ''__lookupGetter__'', ''__lookupSetter__'', ''isPrototypeOf'', ''propertyIsEnumerable'',
      ''toString'', ''valueOf'', ''__proto__'', ''toLocaleString'']"

definition get_prop :: "jsobject \<Rightarrow> string \<Rightarrow> jsval" where
  "get_prop obj k =
     (case map_of obj k of
        Some v \<Rightarrow> v
      | None \<Rightarrow> if k \<in> set objectPrototypeNames then Object (''Object.prototype.'' @ k) else Undefined)"

subsection \<open>Arrays\<close>

text \<open>\<^verbatim>\<open>ToIntegerOrInfinity\<close>, and \<^verbatim>\<open>xs.slice(start, end)\<close> with \<open>end\<close> absent (\<open>None\<close>) or a
  number: a negative index counts from the end, every index is clamped to the array.\<close>

datatype intOrInf = MinusInf | IntVal int | PlusInf

definition ToIntegerOrInfinity :: "jsnum \<Rightarrow> intOrInf" where
  "ToIntegerOrInfinity x =
     (case x of
        NaN \<Rightarrow> IntVal 0
      | NegInfinity \<Rightarrow> MinusInf
      | PosInfinity \<Rightarrow> PlusInf
      | Finite q \<Rightarrow> IntVal (if 0 \<le> q then \<lfloor>q\<rfloor> else \<lceil>q\<rceil>))"

definition relativeIndex :: "intOrInf \<Rightarrow> nat \<Rightarrow> nat" where
  "relativeIndex r len =
     (case r of
        MinusInf \<Rightarrow> 0
      | PlusInf \<Rightarrow> len
      | IntVal i \<Rightarrow> if i < 0 then nat (max (int len + i) 0) else nat (min i (int len)))"

definition arr_slice :: "'a list \<Rightarrow> jsnum \<Rightarrow> jsnum option \<Rightarrow> 'a list" where
  "arr_slice xs start end =
     (let len = length xs;
          k = relativeIndex (ToIntegerOrInfinity start) len;
          final = (case end of None \<Rightarrow> len | Some e \<Rightarrow> relativeIndex (ToIntegerOrInfinity e) len)
      in take (final - k) (drop k xs))"

subsection \<open>\<^verbatim>\<open>parseCSV\<close>\<close>

text \<open>The end of a row (lines 32-34 and 45-47): the row is pushed when one of its fields
  is not the empty string.\<close>

definition emit :: "string list \<Rightarrow> string list list \<Rightarrow> string list list" where
  "emit current rows =
     (if 0 < length current \<and> list_ex (\<lambda>c. c \<noteq> []) current then rows @ [current] else rows)"

text \<open>\<^verbatim>\<open>text[i + 1]\<close>: \<^verbatim>\<open>undefined\<close> past the end.\<close>

definition peek :: "string \<Rightarrow> char option" where
  "peek rest = (case rest of [] \<Rightarrow> None | n # _ \<Rightarrow> Some n)"

text \<open>The loop of lines 10-41 on the text from position \<open>i\<close> on, with the variables
  \<open>inQuotes\<close>, \<open>field\<close>, \<open>current\<close> and \<open>rows\<close>; at the end of the text, lines 44-47. An
  \<^verbatim>\<open>i++\<close> in the body skips the next character.\<close>

function scan ::
  "string \<Rightarrow> string \<Rightarrow> bool \<Rightarrow> string \<Rightarrow> string list \<Rightarrow> string list list \<Rightarrow> string list list"
where
  "scan delimiter [] inQuotes field current rows = emit (current @ [field]) rows"
| "scan delimiter (char # rest) inQuotes field current rows =
     (if inQuotes then
        (if char = quoteChar \<and> peek rest = Some quoteChar then
           scan delimiter (tl rest) True (field @ [quoteChar]) current rows
         else if char = quoteChar then
           scan delimiter rest False field current rows
         else
           scan delimiter rest True (field @ [char]) current rows)
      else
        (if char = quoteChar then
           scan delimiter rest True field current rows
         else if [char] = delimiter then
           scan delimiter rest False [] (current @ [field]) rows
         else if char = LF \<or> (char = CR \<and> peek rest = Some LF) then
           scan delimiter (if char = CR then tl rest else rest) False [] []
             (emit (current @ [field]) rows)
         else if char \<noteq> CR then
           scan delimiter rest False (field @ [char]) current rows
         else
           scan delimiter rest False field current rows))"
  by pat_completeness auto
termination
  by (relation "measure (\<lambda>(d, text, q, f, c, r). length text)")
    (auto simp: peek_def split: list.splits)

text \<open>The rows of a text (lines 5-47).\<close>

definition tokenize :: "string \<Rightarrow> string \<Rightarrow> string list list" where
  "tokenize text delimiter = scan delimiter text False [] [] []"

text \<open>Lines 54-58: the object of a row. \<open>cell row i\<close> is \<^verbatim>\<open>row[i] || ''\<close>: the field, or the
  empty string when the row has no field \<open>i\<close>.\<close>

definition cell :: "string list \<Rightarrow> nat \<Rightarrow> string" where
  "cell row i = (if i < length row \<and> row ! i \<noteq> [] then row ! i else [])"

definition toObject :: "string list \<Rightarrow> string list \<Rightarrow> jsobject" where
  "toObject headers row =
     foldl (\<lambda>obj (h, i). set_prop obj h (Str (cell row i))) [] (zip headers [0..<length headers])"

text \<open>Lines 50-59: the first row is the header.\<close>

definition toRecords :: "string list list \<Rightarrow> jsobject list" where
  "toRecords rows = (if length rows = 0 then [] else map (toObject (hd rows)) (tl rows))"

definition parseCSV :: "string \<Rightarrow> string \<Rightarrow> jsobject list" where
  "parseCSV text delimiter = toRecords (tokenize text delimiter)"

text \<open>For comparison with \<open>scan\<close>: the same scan, but every row is kept, blank or not.\<close>

function scanEveryRow ::
  "string \<Rightarrow> string \<Rightarrow> bool \<Rightarrow> string \<Rightarrow> string list \<Rightarrow> string list list \<Rightarrow> string list list"
where
  "scanEveryRow delimiter [] inQuotes field current rows = rows @ [current @ [field]]"
| "scanEveryRow delimiter (char # rest) inQuotes field current rows =
     (if inQuotes then
        (if char = quoteChar \<and> peek rest = Some quoteChar then
           scanEveryRow delimiter (tl rest) True (field @ [quoteChar]) current rows
         else if char = quoteChar then
           scanEveryRow delimiter rest False field current rows
         else
           scanEveryRow delimiter rest True (field @ [char]) current rows)
      else
        (if char = quoteChar then
           scanEveryRow delimiter rest True field current rows
         else if [char] = delimiter then
           scanEveryRow delimiter rest False [] (current @ [field]) rows
         else if char = LF \<or> (char = CR \<and> peek rest = Some LF) then
           scanEveryRow delimiter (if char = CR then tl rest else rest) False [] []
             (rows @ [current @ [field]])
         else if char \<noteq> CR then
           scanEveryRow delimiter rest False (field @ [char]) current rows
         else
           scanEveryRow delimiter rest False field current rows))"
  by pat_completeness auto
termination
  by (relation "measure (\<lambda>(d, text, q, f, c, r). length text)")
    (auto simp: peek_def split: list.splits)

definition isBlankRow :: "string list \<Rightarrow> bool" where
  "isBlankRow row = list_all (\<lambda>c. c = []) row"

subsection \<open>\<^verbatim>\<open>stringifyCSV\<close>\<close>

text \<open>\<^verbatim>\<open>val ?? ''\<close>\<close>

definition orEmpty :: "jsval \<Rightarrow> jsval" where
  "orEmpty val = (case val of Undefined \<Rightarrow> Str [] | Null \<Rightarrow> Str [] | _ \<Rightarrow> val)"

definition escapeField :: "platform \<Rightarrow> string \<Rightarrow> jsval \<Rightarrow> string" where
  "escapeField js delimiter val =
     (let str = ToString js (orEmpty val)
      in if str_includes str delimiter \<or> str_includes str [quoteChar] \<or> str_includes str [LF]
         then [quoteChar] @ doubleQuotes str @ [quoteChar]
         else str)"

definition stringifyCSV :: "platform \<Rightarrow> jsobject list \<Rightarrow> string \<Rightarrow> string" where
  "stringifyCSV js data delimiter =
     (if length data = 0 then []
      else
        let headers = keys (hd data);
            lines =
              arr_join (map (\<lambda>h. escapeField js delimiter (Str h)) headers) delimiter
              # map (\<lambda>row. arr_join (map (\<lambda>h. escapeField js delimiter (get_prop row h)) headers)
                         delimiter) data
        in arr_join lines [LF])"

subsection \<open>\<^verbatim>\<open>filter\<close>\<close>

text \<open>The table \<open>ops\<close> (lines 88-101) at a name: the operator as a function of the row's
  value and the comparison value, giving the truth of its result or the exception it
  throws. \<open>ops\<close> is a plain object, so the names \<^verbatim>\<open>constructor\<close> and \<^verbatim>\<open>__proto__\<close> find
  members of \<^verbatim>\<open>Object.prototype\<close>: the function \<^verbatim>\<open>Object\<close>, which returns an object, and an
  object that is not a function.\<close>

definition ops :: "platform \<Rightarrow> string \<Rightarrow> (jsval \<Rightarrow> jsval \<Rightarrow> error + bool) option" where
  "ops js name =
     (if name = ''eq'' then Some (\<lambda>a b. Inr (strictEquals a b))
      else if name = ''ne'' then Some (\<lambda>a b. Inr (\<not> strictEquals a b))
      else if name = ''gt'' then Some (\<lambda>a b. Inr (js_gt (parseFloat js a) (parseFloat js b)))
      else if name = ''lt'' then Some (\<lambda>a b. Inr (js_lt (parseFloat js a) (parseFloat js b)))
      else if name = ''gte'' then Some (\<lambda>a b. Inr (js_gte (parseFloat js a) (parseFloat js b)))
      else if name = ''lte'' then Some (\<lambda>a b. Inr (js_lte (parseFloat js a) (parseFloat js b)))
      else if name = ''contains'' then
        Some (\<lambda>a b. Inr (str_includes (str_toLowerCase (ToString js a)) (str_toLowerCase (ToString js b))))
      else if name = ''startswith'' then
        Some (\<lambda>a b. Inr (str_startsWith (str_toLowerCase (ToString js a)) (str_toLowerCase (ToString js b))))
      else if name = ''endswith'' then
        Some (\<lambda>a b. Inr (str_endsWith (str_toLowerCase (ToString js a)) (str_toLowerCase (ToString js b))))
      else if name = ''regex'' then
        Some (\<lambda>a b.
          case RegExp_new js (if b = Undefined then [] else ToString js b) ''i'' of
            Inl e \<Rightarrow> Inl e
          | Inr re \<Rightarrow> Inr (RegExp_test js re (ToString js a)))
      else if name = ''empty'' then Some (\<lambda>a b. Inr (\<not> ToBoolean a \<or> strictEquals a (Str [])))
      else if name = ''notempty'' then Some (\<lambda>a b. Inr (ToBoolean a \<and> \<not> strictEquals a (Str [])))
      else if name = ''constructor'' then Some (\<lambda>a b. Inr True)
      else if name = ''__proto__'' then Some (\<lambda>a b. Inl (TypeError ''op is not a function''))
      else None)"

text \<open>\<^verbatim>\<open>xs.filter(p)\<close> for a callback that may throw: the first exception ends the call.\<close>

fun arr_filter :: "('a \<Rightarrow> error + bool) \<Rightarrow> 'a list \<Rightarrow> error + 'a list" where
  "arr_filter p [] = Inr []"
| "arr_filter p (x # xs) =
     (case p x of
        Inl e \<Rightarrow> Inl e
      | Inr keep \<Rightarrow>
          (case arr_filter p xs of Inl e \<Rightarrow> Inl e | Inr ys \<Rightarrow> Inr (if keep then x # ys else ys)))"

definition filter_data ::
  "platform \<Rightarrow> jsobject list \<Rightarrow> string \<Rightarrow> string \<Rightarrow> jsval \<Rightarrow> error + jsobject list"
where
  "filter_data js data column operator val =
     (case ops js (str_toLowerCase operator) of
        None \<Rightarrow> Inl (Error (''Unknown operator: '' @ operator))
      | Some op \<Rightarrow> arr_filter (\<lambda>row. op (get_prop row column) val) data)"

subsection \<open>\<^verbatim>\<open>transform\<close>\<close>

text \<open>\<^verbatim>\<open>expression.match(/^(\w+)\s*=\s*(.+)$/)\<close> (line 115), written out: the name is the
  longest run of word characters at the start; white space, \<^verbatim>\<open>=\<close> and white space follow;
  the body is what remains, and holds no line terminator. When only white space follows
  \<^verbatim>\<open>=\<close>, the body is its last character (\<^verbatim>\<open>\s*\<close> gives one character back to \<^verbatim>\<open>.+\<close>).\<close>

definition matchExpression :: "string \<Rightarrow> (string \<times> string) option" where
  "matchExpression expression =
     (let newCol = takeWhile isWordChar expression;
          r1 = dropWhile isWhiteSpace (dropWhile isWordChar expression)
      in if newCol = [] \<or> r1 = [] \<or> hd r1 \<noteq> CHR ''='' then None
         else
           let ws = takeWhile isWhiteSpace (tl r1); body = dropWhile isWhiteSpace (tl r1)
           in if body \<noteq> [] then
                (if list_ex isLineTerminator body then None else Some (newCol, body))
              else if ws \<noteq> [] \<and> \<not> isLineTerminator (last ws) then Some (newCol, [last ws])
              else None)"

text \<open>Lines 126-128: what a column's name is replaced by, the number \<^verbatim>\<open>parseFloat\<close> reads
  in the value, or the value between quote characters when \<^verbatim>\<open>parseFloat\<close> gives NaN.\<close>

definition replacement :: "platform \<Rightarrow> jsval \<Rightarrow> jsval" where
  "replacement js val =
     (let numVal = parseFloat js val
      in if isNaN numVal then Str ([quoteChar] @ ToString js val @ [quoteChar]) else Num numVal)"

text \<open>The pattern \<^verbatim>\<open>\bcol\b\<close> of line 129.\<close>

definition wordPattern :: "string \<Rightarrow> string" where
  "wordPattern col = [CHR 0x5C, CHR ''b''] @ col @ [CHR 0x5C, CHR ''b'']"

text \<open>A word: one or more word characters. For a word \<open>w\<close> the pattern \<^verbatim>\<open>\bw\b\<close> has no
  character of regular-expression syntax but the two assertions: it compiles, and it
  matches the text \<open>w\<close> between two word boundaries. So \<^verbatim>\<open>s.replace(/\bw\b/g, r)\<close> is written
  out here; for every other column name the replace is the engine's.

  \<open>wordHere w prevWord s\<close>: the word \<open>w\<close> stands at the start of \<open>s\<close> between word
  boundaries; \<open>prevWord\<close>: the character before \<open>s\<close> is a word character.\<close>

definition isWord :: "string \<Rightarrow> bool" where
  "isWord w = (w \<noteq> [] \<and> list_all isWordChar w)"

definition wordHere :: "string \<Rightarrow> bool \<Rightarrow> string \<Rightarrow> bool" where
  "wordHere w prevWord s =
     (w \<noteq> [] \<and> \<not> prevWord \<and> prefix w s
      \<and> (case drop (length w) s of [] \<Rightarrow> True | n # _ \<Rightarrow> \<not> isWordChar n))"

text \<open>\<^verbatim>\<open>GetSubstitution\<close> for a regular expression without groups: in the replacement text
  \<^verbatim>\<open>$$\<close> stands for \<^verbatim>\<open>$\<close>, \<^verbatim>\<open>$&\<close> for the matched text, \<^verbatim>\<open>$`\<close> for the part of the string before
  the match and \<^verbatim>\<open>$'\<close> for the part after it; any other \<^verbatim>\<open>$\<close> stands for itself.\<close>

fun getSubstitution :: "string \<Rightarrow> string \<Rightarrow> string \<Rightarrow> string \<Rightarrow> string" where
  "getSubstitution matched preceding following [] = []"
| "getSubstitution matched preceding following [c] = [c]"
| "getSubstitution matched preceding following (c # d # r) =
     (if c = CHR ''$'' \<and> d = CHR ''$'' then CHR ''$'' # getSubstitution matched preceding following r
      else if c = CHR ''$'' \<and> d = CHR ''&'' then matched @ getSubstitution matched preceding following r
      else if c = CHR ''$'' \<and> d = CHR 0x60 then preceding @ getSubstitution matched preceding following r
      else if c = CHR ''$'' \<and> d = CHR 0x27 then following @ getSubstitution matched preceding following r
      else c # getSubstitution matched preceding following (d # r))"

text \<open>\<^verbatim>\<open>s.replace(/\bw\b/g, r)\<close> for a word \<open>w\<close> and a replacement text \<open>r\<close>: the matches from
  left to right, each replaced by its substitution; \<open>preceding\<close> is the part of the string
  that lies before the position of the scan.\<close>

fun replaceWord :: "string \<Rightarrow> string \<Rightarrow> string \<Rightarrow> string \<Rightarrow> string" where
  "replaceWord w r preceding [] = []"
| "replaceWord w r preceding (c # s) =
     (if wordHere w (preceding \<noteq> [] \<and> isWordChar (last preceding)) (c # s) then
        getSubstitution w preceding (drop (length w) (c # s)) r
          @ replaceWord w r (preceding @ w) (drop (length w - 1) s)
      else c # replaceWord w r (preceding @ [c]) s)"

text \<open>\<^verbatim>\<open>replace\<close> turns the replacement into a string: the replacement text.\<close>

definition replacementText :: "platform \<Rightarrow> jsval \<Rightarrow> string" where
  "replacementText js val = ToString js (replacement js val)"

text \<open>Lines 126-129, the callback of \<^verbatim>\<open>forEach\<close> for one column: the regular expression is
  compiled outside any \<^verbatim>\<open>try\<close>.\<close>

definition substituteColumn :: "platform \<Rightarrow> string \<Rightarrow> jsval \<Rightarrow> string \<Rightarrow> error + string" where
  "substituteColumn js col val evalExpr =
     (if isWord col then Inr (replaceWord col (replacementText js val) [] evalExpr)
      else
        case RegExp_new js (wordPattern col) ''g'' of
          Inl e \<Rightarrow> Inl e
        | Inr re \<Rightarrow> Inr (RegExp_replace js re evalExpr (replacementText js val)))"

text \<open>Lines 124-130, the loop over the own properties of the row, each column on the text
  the columns before it have left.\<close>

fun substitute :: "platform \<Rightarrow> jsobject \<Rightarrow> string \<Rightarrow> error + string" where
  "substitute js [] evalExpr = Inr evalExpr"
| "substitute js ((col, val) # cols) evalExpr =
     (case substituteColumn js col val evalExpr of
        Inl e \<Rightarrow> Inl e
      | Inr evalExpr' \<Rightarrow> substitute js cols evalExpr')"

text \<open>Lines 120-138, the callback of \<^verbatim>\<open>map\<close> for the element \<open>k\<close> of \<^verbatim>\<open>data\<close>: \<^verbatim>\<open>{ ...row }\<close> has
  the own properties of the row, in their order; the text is evaluated with the state in
  its reach, and the column is set on \<^verbatim>\<open>newRow\<close> as the evaluation has left it, to the value
  of the text, or to the empty string when the evaluation throws. The result is \<open>None\<close>
  when the evaluation does not return, an exception when a regular expression does not
  compile, and else the state with \<^verbatim>\<open>newRow\<close> added to the elements of the result.\<close>

definition transformRow ::
  "platform \<Rightarrow> string \<Rightarrow> string \<Rightarrow> nat \<Rightarrow> evalState \<Rightarrow> (error + evalState) option"
where
  "transformRow js newCol expr k st =
     (let row = es_data st ! k
      in case substitute js row expr of
           Inl e \<Rightarrow> Some (Inl e)
         | Inr evalExpr \<Rightarrow>
             (case js_eval js evalExpr k (st\<lparr>es_newRow := row\<rparr>) of
                None \<Rightarrow> None
              | Some (completion, st') \<Rightarrow>
                  let newRow =
                        set_prop (es_newRow st') newCol
                          (case completion of Inl e \<Rightarrow> Str [] | Inr v \<Rightarrow> v)
                  in Some (Inr (st'\<lparr>es_out := es_out st' @ [Some newRow]\<rparr>))))"

text \<open>\<^verbatim>\<open>data.map(callback)\<close>: the length \<open>len\<close> of the array is read once, before the first
  call; the element \<open>k\<close> is read when its turn comes, and an index the array no longer has
  is passed over and leaves a hole in the result.\<close>

function transformLoop ::
  "platform \<Rightarrow> string \<Rightarrow> string \<Rightarrow> nat \<Rightarrow> nat \<Rightarrow> evalState \<Rightarrow> (error + jsobject option list) option"
where
  "transformLoop js newCol expr len k st =
     (if len \<le> k then Some (Inr (es_out st))
      else if length (es_data st) \<le> k then
        transformLoop js newCol expr len (Suc k) (st\<lparr>es_out := es_out st @ [None]\<rparr>)
      else
        case transformRow js newCol expr k st of
          None \<Rightarrow> None
        | Some (Inl e) \<Rightarrow> Some (Inl e)
        | Some (Inr st') \<Rightarrow> transformLoop js newCol expr len (Suc k) st')"
  by pat_completeness auto
termination
  by (relation "measure (\<lambda>(js, newCol, expr, len, k, st). len - k)") auto

text \<open>\<open>transform js world data expression\<close>: the call \<^verbatim>\<open>transform(data, expression)\<close> made
  when the rest of the engine is in the state \<open>world\<close>. The result is \<open>None\<close> when the call
  does not return, and else the exception it throws or the array it returns.\<close>

definition transform ::
  "platform \<Rightarrow> nat \<Rightarrow> jsobject list \<Rightarrow> string \<Rightarrow> (error + jsobject option list) option"
where
  "transform js world data expression =
     (case matchExpression expression of
        None \<Rightarrow> Some (Inl (Error ''Invalid expression. Use: column=expression''))
      | Some (newCol, expr) \<Rightarrow>
          transformLoop js newCol expr (length data) 0
            \<lparr> es_data = data, es_newRow = [], es_out = [], es_world = world \<rparr>)"

subsection \<open>\<^verbatim>\<open>head\<close> and \<^verbatim>\<open>tail\<close>\<close>

text \<open>\<^verbatim>\<open>data.slice(0, n)\<close> and \<^verbatim>\<open>data.slice(-n)\<close>, for a number \<open>n\<close>.\<close>

definition head :: "'a list \<Rightarrow> jsnum \<Rightarrow> 'a list" where
  "head data n = arr_slice data (Finite 0) (Some n)"

definition tail :: "'a list \<Rightarrow> jsnum \<Rightarrow> 'a list" where
  "tail data n = arr_slice data (negate n) None"

subsection \<open>Datasets\<close>

text \<open>The keys of an object stand in the order \<^verbatim>\<open>Object.keys\<close> gives them: a key that is an
  array index has only smaller array indices before it.\<close>

fun keyOrdered :: "string list \<Rightarrow> bool" where
  "keyOrdered [] = True"
| "keyOrdered [k] = True"
| "keyOrdered (k # k' # ks) =
     ((isArrayIndex k' \<longrightarrow> isArrayIndex k \<and> decimalValue k < decimalValue k') \<and> keyOrdered (k' # ks))"

definition isStr :: "jsval \<Rightarrow> bool" where
  "isStr v = (case v of Str s \<Rightarrow> True | _ \<Rightarrow> False)"

definition strOf :: "jsval \<Rightarrow> string" where
  "strOf v = (case v of Str s \<Rightarrow> s | _ \<Rightarrow> [])"

text \<open>A field that \<open>escapeField\<close> writes without quotes has no carriage return in it: a
  carriage return in the field comes with the delimiter, a quote character or a line
  feed.\<close>

definition keepsCR :: "char \<Rightarrow> string \<Rightarrow> bool" where
  "keepsCR dc s = (CR \<in> set s \<longrightarrow> dc \<in> set s \<or> quoteChar \<in> set s \<or> LF \<in> set s)"

text \<open>What a dataset needs to come back from \<open>stringifyCSV\<close> and \<open>parseCSV\<close> as it
  went in. The header: a list of keys as a plain object has them (distinct, in the order
  of \<^verbatim>\<open>Object.keys\<close>), none of them \<^verbatim>\<open>__proto__\<close>, one of them not empty. A record: the keys
  of the header, string values, one of them not empty.\<close>

definition roundTripHeader :: "char \<Rightarrow> string list \<Rightarrow> bool" where
  "roundTripHeader dc headers =
     (distinct headers \<and> keyOrdered headers \<and> ''__proto__'' \<notin> set headers
      \<and> list_ex (\<lambda>h. h \<noteq> []) headers \<and> list_all (keepsCR dc) headers)"

definition roundTripRecord :: "char \<Rightarrow> string list \<Rightarrow> jsobject \<Rightarrow> bool" where
  "roundTripRecord dc headers row =
     (keys row = headers \<and> list_all isStr (map snd row)
      \<and> list_ex (\<lambda>v. v \<noteq> Str []) (map snd row)
      \<and> list_all (\<lambda>v. keepsCR dc (strOf v)) (map snd row))"

subsection \<open>Notions of the specification\<close>

text \<open>The order of the numbers that are not NaN, written from the number line: the
  infinities are its ends. It is what "the numeric comparison holds" means for the
  operators of \<open>filter\<close>.\<close>

definition num_le :: "jsnum \<Rightarrow> jsnum \<Rightarrow> bool" where
  "num_le x y =
     (x \<noteq> NaN \<and> y \<noteq> NaN
      \<and> (x = NegInfinity \<or> y = PosInfinity
          \<or> (case (x, y) of (Finite a, Finite b) \<Rightarrow> a \<le> b | _ \<Rightarrow> False)))"

definition num_less :: "jsnum \<Rightarrow> jsnum \<Rightarrow> bool" where
  "num_less x y = (num_le x y \<and> x \<noteq> y)"

text \<open>The decimal literals, from their grammar and not from the scan of \<open>parseFloat\<close>: a
  literal is an optional sign and then \<^verbatim>\<open>Infinity\<close> or a mantissa with an optional exponent;
  a mantissa is digits, digits with a point and optional digits after it, or a point with
  digits after it; an exponent is \<^verbatim>\<open>e\<close> or \<^verbatim>\<open>E\<close>, an optional sign and digits. \<open>splits s\<close>: the
  ways to cut \<open>s\<close> in two.\<close>

definition splits :: "'a list \<Rightarrow> ('a list \<times> 'a list) list" where
  "splits s = map (\<lambda>i. (take i s, drop i s)) [0..<Suc (length s)]"













subsection \<open>An engine for the examples\<close>

text \<open>The examples below need a \<open>platform\<close>. This one answers as a JavaScript engine does
  on a fragment that holds the calls the examples make:
  \<^item> \<open>Number_toString\<close>: integers of magnitude below \<open>10^21\<close>, NaN and the infinities (any
    other number is printed as the empty string here, as no engine does);
  \<^item> \<open>Object_toString\<close>: the members of \<^verbatim>\<open>Object.prototype\<close>, in the notation of V8;
  \<^item> regular expressions: a pattern of word characters only, which is its literal text,
    and the pattern \<^verbatim>\<open>\bw\b\<close> of a word \<open>w\<close>; \<open>RegExp_test\<close> under the flag \<^verbatim>\<open>i\<close> or under no
    flag, \<open>RegExp_replace\<close> for \<^verbatim>\<open>\bw\b\<close> under the flag \<^verbatim>\<open>g\<close>. Every other pattern is answered
    as a syntax error, which it is for \<^verbatim>\<open>(\<close> and is not for many others;
  \<^item> \<open>js_eval\<close>: a decimal integer below \<open>2^53\<close> without a leading zero, and the product of
    two of them, which are evaluated without any effect on the state; every other text is
    answered as a syntax error.\<close>

function natToString :: "nat \<Rightarrow> string" where
  "natToString n =
     (if n < 10 then [char_of (48 + n)] else natToString (n div 10) @ [char_of (48 + n mod 10)])"
  by pat_completeness auto
termination
  by (relation "measure id") auto

definition exampleNumberToString :: "jsnum \<Rightarrow> string" where
  "exampleNumberToString x =
     (case x of
        NaN \<Rightarrow> ''NaN''
      | PosInfinity \<Rightarrow> ''Infinity''
      | NegInfinity \<Rightarrow> ''-Infinity''
      | Finite q \<Rightarrow>
          if q = of_int \<lfloor>q\<rfloor> \<and> \<bar>q\<bar> < 10 ^ 21 then
            (if q < 0 then ''-'' else []) @ natToString (nat \<bar>\<lfloor>q\<rfloor>\<bar>)
          else [])"

definition exampleObjectToString :: "string \<Rightarrow> string" where
  "exampleObjectToString tag =
     (if tag = ''Object.prototype.__proto__'' then ''[object Object]''
      else if tag = ''Object.prototype.constructor'' then ''function Object() { [native code] }''
      else ''function '' @ drop 17 tag @ ''() { [native code] }'')"

text \<open>The word \<open>w\<close> of a pattern \<^verbatim>\<open>\bw\b\<close>.\<close>

definition wordOfPattern :: "string \<Rightarrow> string option" where
  "wordOfPattern p =
     (let w = take (length p - 4) (drop 2 p)
      in if 4 < length p \<and> p = wordPattern w \<and> isWord w then Some w else None)"

text \<open>\<^verbatim>\<open>/\bw\b/.test(s)\<close>: the word occurs between word boundaries.\<close>

fun findWord :: "string \<Rightarrow> bool \<Rightarrow> string \<Rightarrow> bool" where
  "findWord w prevWord [] = False"
| "findWord w prevWord (c # s) = (wordHere w prevWord (c # s) \<or> findWord w (isWordChar c) s)"

definition isDecimalInteger :: "string \<Rightarrow> bool" where
  "isDecimalInteger a =
     (a \<noteq> [] \<and> list_all isDigit a \<and> (a = ''0'' \<or> hd a \<noteq> CHR ''0'') \<and> decimalValue a < 2 ^ 53)"

definition exampleEval :: "string \<Rightarrow> error + jsval" where
  "exampleEval src =
     (let a = takeWhile isDigit src; r = dropWhile isDigit src
      in if isDecimalInteger a \<and> r = [] then Inr (Num (roundToDouble (of_int (decimalValue a))))
         else if isDecimalInteger a \<and> r \<noteq> [] \<and> hd r = CHR ''*'' \<and> isDecimalInteger (tl r) then
           Inr (Num (roundToDouble (of_int (decimalValue a * decimalValue (tl r)))))
         else Inl SyntaxError)"

definition example_platform :: platform where
  "example_platform =
     \<lparr> Number_toString = exampleNumberToString,
       Object_toString = exampleObjectToString,
       RegExp_syntaxOk = (\<lambda>p f. list_all isWordChar p \<or> wordOfPattern p \<noteq> None),
       RegExp_test = (\<lambda>(p, f) s.
         let p' = (if CHR ''i'' \<in> set f then str_toLowerCase p else p);
             s' = (if CHR ''i'' \<in> set f then str_toLowerCase s else s)
         in case wordOfPattern p' of None \<Rightarrow> str_includes s' p' | Some w \<Rightarrow> findWord w False s'),
       RegExp_replace = (\<lambda>(p, f) s r.
         case wordOfPattern p of None \<Rightarrow> s | Some w \<Rightarrow> replaceWord w r [] s),
       js_eval = (\<lambda>src k st. Some (exampleEval src, st)) \<rparr>"

text \<open>The same engine, which moreover evaluates the text
  \<^verbatim>\<open>(newRow[Object.keys(newRow)[0]]=7)\<close>: the assignment writes 7 to the first property of
  \<^verbatim>\<open>newRow\<close> (to a property \<^verbatim>\<open>undefined\<close> when it has none), and 7 is its value.\<close>

definition assignFirst :: "jsobject \<Rightarrow> jsval \<Rightarrow> jsobject" where
  "assignFirst obj v = (case obj of [] \<Rightarrow> set_prop obj ''undefined'' v | (k, _) # _ \<Rightarrow> set_prop obj k v)"

definition assigning_platform :: platform where
  "assigning_platform =
     example_platform
       \<lparr> js_eval := (\<lambda>src k st.
           if src = ''(newRow[Object.keys(newRow)[0]]=7)'' then
             Some (Inr (Num (Finite 7)), st\<lparr>es_newRow := assignFirst (es_newRow st) (Num (Finite 7))\<rparr>)
           else Some (exampleEval src, st)) \<rparr>"

section \<open>The tokenizer\<close>

declare scan.simps(2) [simp del] scanEveryRow.simps(2) [simp del]

subsection \<open>One step of the scan\<close>

lemma scan_quoted_quote_quote:
  "scan d (quoteChar # quoteChar # rest) True field current rows =
     scan d rest True (field @ [quoteChar]) current rows"
  by (simp add: scan.simps(2) peek_def)

lemma scan_quoted_quote:
  "peek rest \<noteq> Some quoteChar \<Longrightarrow>
     scan d (quoteChar # rest) True field current rows = scan d rest False field current rows"
  by (simp add: scan.simps(2))

lemma scan_quoted_other:
  "c \<noteq> quoteChar \<Longrightarrow>
     scan d (c # rest) True field current rows = scan d rest True (field @ [c]) current rows"
  by (simp add: scan.simps(2))

lemma scan_open_quote:
  "scan d (quoteChar # rest) False field current rows = scan d rest True field current rows"
  by (simp add: scan.simps(2))

lemma scan_delimiter:
  "c \<noteq> quoteChar \<Longrightarrow>
     scan [c] (c # rest) False field current rows = scan [c] rest False [] (current @ [field]) rows"
  by (simp add: scan.simps(2))

lemma scan_newline:
  "d \<noteq> [LF] \<Longrightarrow>
     scan d (LF # rest) False field current rows =
       scan d rest False [] [] (emit (current @ [field]) rows)"
  by (simp add: scan.simps(2))

lemma scan_plain:
  "c \<noteq> quoteChar \<Longrightarrow> [c] \<noteq> d \<Longrightarrow> c \<noteq> LF \<Longrightarrow> c \<noteq> CR \<Longrightarrow>
     scan d (c # rest) False field current rows = scan d rest False (field @ [c]) current rows"
  by (simp add: scan.simps(2))

text \<open>
  C9. Inside a quoted field (\<open>inQuotes\<close> is true): two quote characters in a row add one
  quote character to the field, and the scan stays inside the quotes; a quote character
  that no quote character follows leaves the quotes and adds nothing to the field; any
  other character, the delimiter and the line terminators among them, is added to the
  field as it is. The text \<^verbatim>\<open>"he said ""hi"""\<close> is the one field \<^verbatim>\<open>he said "hi"\<close>, and a quoted
  field with a line feed in it stays one field of one row.
\<close>

theorem quoted_field_scan:
  \<open>scan d (quoteChar # quoteChar # rest) True field current rows =
      scan d rest True (field @ [quoteChar]) current rows
    \<and> (peek rest \<noteq> Some quoteChar \<longrightarrow>
         scan d (quoteChar # rest) True field current rows = scan d rest False field current rows)
    \<and> (c \<noteq> quoteChar \<longrightarrow>
         scan d (c # rest) True field current rows = scan d rest True (field @ [c]) current rows)
    \<and> tokenize ''"he said ""hi"""'' '','' = [[''he said "hi"'']]
    \<and> tokenize ''"line1\<newline>line2"'' '','' = [[''line1\<newline>line2'']]\<close>
proof -
  have \<open>tokenize ''"he said ""hi"""'' '','' = [[''he said "hi"'']]\<close>
    by (simp add: tokenize_def scan.simps(2) peek_def emit_def)
  moreover have \<open>tokenize ''"line1\<newline>line2"'' '','' = [[''line1\<newline>line2'']]\<close>
    by (simp add: tokenize_def scan.simps(2) peek_def emit_def)
  ultimately show ?thesis
    using scan_quoted_quote_quote scan_quoted_quote scan_quoted_other by blast
qed

theorem quoted_field_scan_witness:
  \<open>peek ''b'' \<noteq> Some quoteChar
    \<and> scan '','' ''"b'' True ''a'' [] [] = scan '','' ''b'' False ''a'' [] []
    \<and> CHR '','' \<noteq> quoteChar
    \<and> scan '','' '',b'' True ''a'' [] [] = scan '','' ''b'' True ''a,'' [] []\<close>
  using quoted_field_scan [of "'',''" "''b''" "''a''" "[]" "[]" "CHR '',''"]
  by (simp add: peek_def)

subsection \<open>Blank rows\<close>

lemma emit_filter:
  "emit current (filter (\<lambda>row. \<not> isBlankRow row) rows) =
     filter (\<lambda>row. \<not> isBlankRow row) (rows @ [current])"
  by (cases current) (auto simp: emit_def isBlankRow_def list_ex_iff list_all_iff)

lemma scan_filter:
  "scan d input q field current (filter (\<lambda>row. \<not> isBlankRow row) rows) =
     filter (\<lambda>row. \<not> isBlankRow row) (scanEveryRow d input q field current rows)"
proof (induction d input q field current rows rule: scanEveryRow.induct)
  case (1 delimiter inQuotes field current rows)
  show ?case
    using emit_filter [of "current @ [field]" rows] by simp
next
  case (2 delimiter char rest inQuotes field current rows)
  then show ?case
    by (auto simp add: scan.simps(2) scanEveryRow.simps(2) emit_filter simp del: filter_append)
qed

text \<open>
  C6. No row of the tokenizer's result has only empty fields: the result is the rows of
  the text, in their order, without those whose fields are all empty. The text
  \<^verbatim>\<open>a,b\n\n1,2\n\<close> gives the header row \<open>[a, b]\<close> and the one data row \<open>[1, 2]\<close>.
\<close>

theorem blank_rows_discarded:
  "(\<forall>row \<in> set (tokenize input d). \<not> isBlankRow row)
    \<and> tokenize input d = filter (\<lambda>row. \<not> isBlankRow row) (scanEveryRow d input False [] [] [])
    \<and> tokenize ''a,b\<newline>\<newline>1,2\<newline>'' '','' = [[''a'', ''b''], [''1'', ''2'']]"
proof -
  have eq: "tokenize input d = filter (\<lambda>row. \<not> isBlankRow row) (scanEveryRow d input False [] [] [])"
    using scan_filter [of d input False "[]" "[]" "[]"] by (simp add: tokenize_def)
  have "\<forall>row \<in> set (tokenize input d). \<not> isBlankRow row"
    unfolding eq by simp
  moreover have "tokenize ''a,b\<newline>\<newline>1,2\<newline>'' '','' = [[''a'', ''b''], [''1'', ''2'']]"
    by (simp add: tokenize_def scan.simps(2) peek_def emit_def)
  ultimately show ?thesis
    using eq by blast
qed

theorem blank_rows_discarded_witness:
  "[''x'', ''''] \<in> set (tokenize ''x,\<newline>,\<newline>y'' '','') \<and> \<not> isBlankRow [''x'', '''']
    \<and> ['''', ''''] \<notin> set (tokenize ''x,\<newline>,\<newline>y'' '','')
    \<and> scanEveryRow '','' ''x,\<newline>,\<newline>y'' False [] [] [] = [[''x'', ''''], ['''', ''''], [''y'']]"
proof -
  have "tokenize ''x,\<newline>,\<newline>y'' '','' = [[''x'', ''''], [''y'']]"
    by (simp add: tokenize_def scan.simps(2) peek_def emit_def)
  moreover have "scanEveryRow '','' ''x,\<newline>,\<newline>y'' False [] [] [] = [[''x'', ''''], ['''', ''''], [''y'']]"
    by (simp add: scanEveryRow.simps(2) peek_def)
  ultimately show ?thesis
    using blank_rows_discarded [of "''x,\<newline>,\<newline>y''" "'',''"]
    by (simp add: isBlankRow_def)
qed

section \<open>\<^verbatim>\<open>head\<close> and \<^verbatim>\<open>tail\<close>\<close>

lemma head_first_rows: "head data (Finite (of_nat n)) = take n data"
  by (simp add: head_def arr_slice_def ToIntegerOrInfinity_def relativeIndex_def Let_def min_def)

lemma tail_last_rows:
  "0 < n \<Longrightarrow> tail data (Finite (of_nat n)) = drop (length data - n) data"
  by (auto simp add: tail_def arr_slice_def ToIntegerOrInfinity_def relativeIndex_def negate_def
      Let_def max_def ceiling_def nat_diff_distrib')

text \<open>
  C3. \<open>tail\<close> with \<open>n = 0\<close>: \<^verbatim>\<open>data.slice(-0)\<close> is \<^verbatim>\<open>data.slice(0)\<close>, the whole array, where the
  last \<open>min(0, |D|)\<close> records are none. (\<open>head\<close> gives the first \<open>min(n, |D|)\<close> records for
  every \<open>n\<close>, and \<open>tail\<close> the last \<open>min(n, |D|)\<close> for every \<open>n\<close> but 0: \<open>head_first_rows\<close>,
  \<open>tail_last_rows\<close>.)
\<close>

theorem tail_zero_returns_every_row:
  "tail [[(''a'', Str ''1'')], [(''a'', Str ''2'')]] (Finite 0)
     = [[(''a'', Str ''1'')], [(''a'', Str ''2'')]]
   \<and> head [[(''a'', Str ''1'')], [(''a'', Str ''2'')]] (Finite 0) = []"
  by (simp add: tail_def head_def arr_slice_def ToIntegerOrInfinity_def relativeIndex_def negate_def)

section \<open>The record mapper\<close>

subsection \<open>Writing a property\<close>

lemma keyOrdered_butlast: "keyOrdered (ks @ [k]) \<Longrightarrow> keyOrdered ks"
  by (induction ks rule: keyOrdered.induct) auto

lemma keyOrdered_last_index:
  "keyOrdered (ks @ [k]) \<Longrightarrow> isArrayIndex k \<Longrightarrow>
     \<forall>k' \<in> set ks. isArrayIndex k' \<and> decimalValue k' < decimalValue k"
  by (induction ks rule: keyOrdered.induct) auto

lemma insertIndexed_last:
  "\<forall>k' \<in> set (keys obj). isArrayIndex k' \<and> decimalValue k' < decimalValue k \<Longrightarrow>
     insertIndexed k v obj = obj @ [(k, v)]"
  by (induction obj) (auto simp: keys_def)

lemma set_prop_new:
  assumes "k \<notin> set (keys obj)" "k \<noteq> ''__proto__''" "keyOrdered (keys obj @ [k])"
  shows "set_prop obj k v = obj @ [(k, v)]"
  using assms keyOrdered_last_index [of "keys obj" k] insertIndexed_last [of obj k v]
  by (auto simp: set_prop_def hasOwn_def)

lemma toObject_snoc:
  "toObject (hs @ [h]) row = set_prop (toObject hs row) h (Str (cell row (length hs)))"
  by (simp add: toObject_def)

lemma toObject_ordered:
  assumes "distinct hs" "''__proto__'' \<notin> set hs" "keyOrdered hs"
  shows "toObject hs row = map (\<lambda>(h, i). (h, Str (cell row i))) (zip hs [0..<length hs])"
  using assms
proof (induction hs rule: rev_induct)
  case Nil
  show ?case by (simp add: toObject_def)
next
  case (snoc h hs)
  have ord: "keyOrdered hs"
    using snoc.prems(3) keyOrdered_butlast by blast
  have ih: "toObject hs row = map (\<lambda>(h, i). (h, Str (cell row i))) (zip hs [0..<length hs])"
    using snoc ord by simp
  have ks: "keys (toObject hs row) = hs"
    unfolding ih keys_def by (simp add: map_fst_zip_take comp_def case_prod_unfold)
  have "set_prop (toObject hs row) h (Str (cell row (length hs))) =
          toObject hs row @ [(h, Str (cell row (length hs)))]"
    using snoc.prems ks by (intro set_prop_new) auto
  then show ?case
    unfolding toObject_snoc using ih by simp
qed

lemma map_of_update_hit:
  "k \<in> set (keys obj) \<Longrightarrow>
     map_of (map (\<lambda>(k', v'). if k' = k then (k', v) else (k', v')) obj) k = Some v"
proof (induction obj)
  case Nil
  then show ?case by (simp add: keys_def)
next
  case (Cons p obj)
  obtain a b where p: "p = (a, b)" by (cases p)
  show ?case
  proof (cases "a = k")
    case True
    then show ?thesis unfolding p by simp
  next
    case False
    then have "k \<in> set (keys obj)"
      using Cons.prems unfolding p keys_def by simp
    then show ?thesis
      using Cons.IH False unfolding p by simp
  qed
qed

lemma map_of_update_miss:
  "k'' \<noteq> k \<Longrightarrow>
     map_of (map (\<lambda>(k', v'). if k' = k then (k', v) else (k', v')) obj) k'' = map_of obj k''"
proof (induction obj)
  case Nil
  show ?case by simp
next
  case (Cons p obj)
  obtain a b where p: "p = (a, b)" by (cases p)
  show ?case
    using Cons unfolding p by (cases "a = k") simp_all
qed

lemma keys_update_all:
  "keys (map (\<lambda>(k', v'). if k' = k then (k', v) else (k', v')) obj) = keys obj"
  unfolding keys_def by (induction obj) (simp_all add: case_prod_unfold)

lemma map_of_insertIndexed:
  "map_of (insertIndexed k v obj) k'' = (if k'' = k then Some v else map_of obj k'')"
  by (induction obj) auto

lemma set_keys_insertIndexed: "set (keys (insertIndexed k v obj)) = insert k (set (keys obj))"
proof (induction obj)
  case Nil
  show ?case by (simp add: keys_def)
next
  case (Cons p obj)
  obtain k' v' where p: "p = (k', v')" by (cases p)
  show ?case
    using Cons unfolding p keys_def by (simp add: insert_commute)
qed

lemma map_of_snoc_new:
  "k \<notin> set (keys obj) \<Longrightarrow>
     map_of (obj @ [(k, v)]) k'' = (if k'' = k then Some v else map_of obj k'')"
  by (induction obj) (auto simp: keys_def)

lemma map_of_set_prop:
  assumes "k \<noteq> ''__proto__''"
  shows "map_of (set_prop obj k v) k'' = (if k'' = k then Some v else map_of obj k'')"
proof (cases "hasOwn obj k")
  case True
  then show ?thesis
    by (simp add: set_prop_def map_of_update_hit map_of_update_miss hasOwn_def)
next
  case False
  then show ?thesis
    using assms
    by (simp add: set_prop_def map_of_insertIndexed map_of_snoc_new hasOwn_def del: map_of_append)
qed

lemma set_keys_set_prop:
  "set (keys (set_prop obj k v)) =
     (if k = ''__proto__'' then set (keys obj) else insert k (set (keys obj)))"
proof (cases "hasOwn obj k")
  case True
  then show ?thesis
    by (auto simp: set_prop_def keys_update_all hasOwn_def)
next
  case False
  then show ?thesis
    by (simp add: set_prop_def set_keys_insertIndexed hasOwn_def) (simp add: keys_def)
qed

lemma set_prop_proto: "''__proto__'' \<notin> set (keys obj) \<Longrightarrow> set_prop obj ''__proto__'' v = obj"
  by (simp add: set_prop_def hasOwn_def)

lemma keys_toObject: "set (keys (toObject hs row)) = set hs - {''__proto__''}"
proof (induction hs rule: rev_induct)
  case Nil
  show ?case by (simp add: toObject_def keys_def)
next
  case (snoc h hs)
  then show ?case
    by (auto simp: toObject_snoc set_keys_set_prop)
qed

lemma toObject_lookup:
  "i < length hs \<Longrightarrow> hs ! i \<noteq> ''__proto__'' \<Longrightarrow>
     \<exists>j. i \<le> j \<and> j < length hs \<and> map_of (toObject hs row) (hs ! i) = Some (Str (cell row j))"
proof (induction hs rule: rev_induct)
  case Nil
  then show ?case by simp
next
  case (snoc h hs)
  let ?obj = "toObject hs row"
  show ?case
  proof (cases "h = ''__proto__''")
    case True
    have "''__proto__'' \<notin> set (keys ?obj)"
      using keys_toObject [of hs row] by simp
    then have same: "toObject (hs @ [h]) row = ?obj"
      using True by (simp add: toObject_snoc set_prop_proto)
    have "i < length hs"
      using snoc.prems True by (cases "i = length hs") auto
    then show ?thesis
      using snoc same by (auto simp: nth_append intro: less_SucI)
  next
    case False
    show ?thesis
    proof (cases "(hs @ [h]) ! i = h")
      case True
      then show ?thesis
        using False snoc.prems by (auto simp: toObject_snoc map_of_set_prop intro!: exI [of _ "length hs"])
    next
      case neq: False
      then have "i < length hs"
        using snoc.prems by (cases "i = length hs") auto
      then show ?thesis
        using snoc neq False by (auto simp: toObject_snoc map_of_set_prop nth_append intro: less_SucI)
    qed
  qed
qed

lemma cell_beyond: "length row \<le> j \<Longrightarrow> cell row j = []"
  by (simp add: cell_def)

lemma toObject_missing:
  assumes "length row \<le> i" "i < length hs" "hs ! i \<noteq> ''__proto__''"
  shows "get_prop (toObject hs row) (hs ! i) = Str []"
proof -
  obtain j where "i \<le> j" "map_of (toObject hs row) (hs ! i) = Some (Str (cell row j))"
    using toObject_lookup [OF assms(2,3)] by blast
  then show ?thesis
    using assms(1) by (simp add: get_prop_def cell_beyond)
qed

lemma toObject_take: "toObject hs row = toObject hs (take (length hs) row)"
proof -
  have "\<And>obj p. p \<in> set (zip hs [0..<length hs]) \<Longrightarrow>
          (\<lambda>(h, i). set_prop obj h (Str (cell row i))) p =
          (\<lambda>(h, i). set_prop obj h (Str (cell (take (length hs) row) i))) p"
    by (auto simp: cell_def dest!: set_zip_rightD)
  then show ?thesis
    unfolding toObject_def by (intro foldl_cong) auto
qed

subsection \<open>Short and long rows\<close>

text \<open>
  C7 (as amended). The record mapper on rows: no rows give the empty dataset; after the
  header row, every row gives one record. A column past the end of a short row has the
  empty string as its value, when its name is not \<^verbatim>\<open>__proto__\<close>; the fields of a long row
  past the header are dropped.
\<close>

theorem record_mapper_pads_and_truncates:
  "toRecords [] = []
    \<and> (tokenize input d = [] \<longrightarrow> parseCSV input d = [])
    \<and> toRecords (headers # rows) = map (toObject headers) rows
    \<and> (length row \<le> i \<and> i < length headers \<and> headers ! i \<noteq> ''__proto__'' \<longrightarrow>
         get_prop (toObject headers row) (headers ! i) = Str [])
    \<and> toObject headers row = toObject headers (take (length headers) row)"
proof -
  have "toRecords (headers # rows) = map (toObject headers) rows" "toRecords [] = []"
    by (simp_all add: toRecords_def)
  moreover have "tokenize input d = [] \<longrightarrow> parseCSV input d = []"
    by (simp add: toRecords_def parseCSV_def)
  moreover have "length row \<le> i \<and> i < length headers \<and> headers ! i \<noteq> ''__proto__'' \<longrightarrow>
      get_prop (toObject headers row) (headers ! i) = Str []"
    using toObject_missing [of row i headers] by blast
  ultimately show ?thesis
    using toObject_take [of headers row] by blast
qed

theorem record_mapper_pads_and_truncates_witness:
  "length [''1''] \<le> 2 \<and> (2::nat) < length [''a'', ''b'', ''c''] \<and> [''a'', ''b'', ''c''] ! 2 \<noteq> ''__proto__''
    \<and> get_prop (toObject [''a'', ''b'', ''c''] [''1'']) ([''a'', ''b'', ''c''] ! 2) = Str []
    \<and> toObject [''a''] [''1'', ''2''] = toObject [''a''] (take (length [''a'']) [''1'', ''2''])
    \<and> tokenize [] '','' = [] \<and> parseCSV [] '','' = []"
proof -
  have t: "tokenize [] '','' = []"
    by (simp add: tokenize_def emit_def)
  have h: "length [''1''] \<le> 2 \<and> (2::nat) < length [''a'', ''b'', ''c''] \<and> [''a'', ''b'', ''c''] ! 2 \<noteq> ''__proto__''"
    by simp
  show ?thesis
    using record_mapper_pads_and_truncates [of "[]" "'',''" "[''a'', ''b'', ''c'']" "[]" "[''1'']" 2]
      record_mapper_pads_and_truncates [of "[]" "'',''" "[''a'']" "[]" "[''1'', ''2'']" 0]
      t h
    by blast
qed

text \<open>
  C7 as stated fails for a column named \<^verbatim>\<open>__proto__\<close>: the assignment
  \<^verbatim>\<open>obj['__proto__'] = ''\<close> creates no property, and reading the column gives
  \<^verbatim>\<open>Object.prototype\<close>, not the empty string.
\<close>

theorem proto_column_counterexample:
  "toRecords [[''a'', ''__proto__''], [''1'']] = [[(''a'', Str ''1'')]]
    \<and> get_prop (toObject [''a'', ''__proto__''] [''1'']) ''__proto__''
        = Object ''Object.prototype.__proto__''"
proof -
  have "toRecords [[''a'', ''__proto__''], [''1'']] = [[(''a'', Str ''1'')]]"
    by code_simp
  moreover have "get_prop (toObject [''a'', ''__proto__''] [''1'']) ''__proto__''
        = Object ''Object.prototype.__proto__''"
    by code_simp
  ultimately show ?thesis by blast
qed

subsection \<open>The keys of a record\<close>

text \<open>
  C10 (as amended). When the names of the header row are pairwise distinct, none of them
  is \<^verbatim>\<open>__proto__\<close>, and those that are array indices come first, in ascending order: every
  record of \<open>parseCSV\<close> has the names of the header as its keys, in the order of the
  header, and every value is a string; there is one record for each data row.
\<close>

theorem parse_records_uniform:
  assumes "tokenize input d = headers # rows"
    and "distinct headers" and "''__proto__'' \<notin> set headers" and "keyOrdered headers"
  shows "length (parseCSV input d) = length rows
    \<and> (\<forall>r \<in> set (parseCSV input d). keys r = headers \<and> list_all isStr (map snd r))"
proof -
  have rec: "parseCSV input d = map (toObject headers) rows"
    using assms(1) by (simp add: parseCSV_def toRecords_def)
  have "keys (toObject headers row) = headers \<and> list_all isStr (map snd (toObject headers row))"
    for row
    unfolding toObject_ordered [OF assms(2-4)] keys_def
    by (simp add: map_fst_zip_take comp_def case_prod_unfold list_all_iff isStr_def)
  then show ?thesis
    unfolding rec by simp
qed

theorem parse_records_uniform_witness:
  "tokenize ''a,b\<newline>1\<newline>1,2,3'' '','' = [''a'', ''b''] # [[''1''], [''1'', ''2'', ''3'']]
    \<and> distinct [''a'', ''b''] \<and> ''__proto__'' \<notin> set [''a'', ''b''] \<and> keyOrdered [''a'', ''b'']
    \<and> length (parseCSV ''a,b\<newline>1\<newline>1,2,3'' '','') = length [[''1''], [''1'', ''2'', ''3'']]
    \<and> list_all (\<lambda>r. keys r = [''a'', ''b''] \<and> list_all isStr (map snd r))
         (parseCSV ''a,b\<newline>1\<newline>1,2,3'' '','')"
proof -
  have t: "tokenize ''a,b\<newline>1\<newline>1,2,3'' '','' = [''a'', ''b''] # [[''1''], [''1'', ''2'', ''3'']]"
    by (simp add: tokenize_def scan.simps(2) peek_def emit_def)
  have k: "keyOrdered [''a'', ''b'']"
    by (simp add: isArrayIndex_def isDigit_def charCode_def)
  have h: "distinct [''a'', ''b'']" "''__proto__'' \<notin> set [''a'', ''b'']"
    by simp_all
  show ?thesis
    using parse_records_uniform [OF t h k] t h k unfolding list_all_iff by blast
qed

text \<open>
  C10 as stated fails for the header \<open>b,0\<close>: its names are distinct, and the keys of the
  record are \<open>0\<close>, \<open>b\<close> in that order (an array index comes before every other key).
\<close>

theorem index_header_counterexample:
  "tokenize ''b,0\<newline>1,2'' '','' = [[''b'', ''0''], [''1'', ''2'']]
    \<and> distinct [''b'', ''0'']
    \<and> map keys (parseCSV ''b,0\<newline>1,2'' '','') = [[''0'', ''b'']]"
proof -
  have "tokenize ''b,0\<newline>1,2'' '','' = [[''b'', ''0''], [''1'', ''2'']]"
    by (simp add: tokenize_def scan.simps(2) peek_def emit_def)
  moreover have "distinct [''b'', ''0'']"
    by simp
  moreover have "map keys (parseCSV ''b,0\<newline>1,2'' '','') = [[''0'', ''b'']]"
    by code_simp
  ultimately show ?thesis by blast
qed

text \<open>A header name \<^verbatim>\<open>__proto__\<close> is not a key of the record at all.\<close>

lemma proto_header_dropped:
  "map keys (parseCSV ''a,__proto__\<newline>1,2'' '','') = [[''a'']]"
  by code_simp

section \<open>Writing and reading back\<close>

subsection \<open>The scan of a written field, line and text\<close>

lemma str_includes_single: "str_includes s [c] \<longleftrightarrow> c \<in> set s"
  by (induction s) auto

lemma escapeField_Str:
  "escapeField js [dc] (Str f) =
     (if dc \<in> set f \<or> quoteChar \<in> set f \<or> LF \<in> set f
      then quoteChar # doubleQuotes f @ [quoteChar] else f)"
  by (simp add: escapeField_def orEmpty_def ToString_def str_includes_single)

lemma doubleQuotes_Nil: "doubleQuotes [] = []"
  by (simp add: doubleQuotes_def)

lemma doubleQuotes_Cons:
  "doubleQuotes (c # f) = (if c = quoteChar then quoteChar # quoteChar # doubleQuotes f else c # doubleQuotes f)"
  by (simp add: doubleQuotes_def)

lemma scan_raw:
  "\<forall>c \<in> set f. c \<noteq> quoteChar \<and> [c] \<noteq> d \<and> c \<noteq> LF \<and> c \<noteq> CR \<Longrightarrow>
     scan d (f @ rest) False field current rows = scan d rest False (field @ f) current rows"
  by (induction f arbitrary: field) (simp_all add: scan_plain)

lemma scan_quoted_content:
  "peek rest \<noteq> Some quoteChar \<Longrightarrow>
     scan d (doubleQuotes f @ quoteChar # rest) True field current rows =
       scan d rest False (field @ f) current rows"
proof (induction f arbitrary: field)
  case Nil
  then show ?case
    by (simp add: doubleQuotes_Nil scan_quoted_quote)
next
  case (Cons c f)
  show ?case
  proof (cases "c = quoteChar")
    case True
    then show ?thesis
      using Cons by (simp add: doubleQuotes_Cons scan_quoted_quote_quote)
  next
    case False
    then show ?thesis
      using Cons by (simp add: doubleQuotes_Cons scan_quoted_other)
  qed
qed

lemma scan_field:
  assumes "dc \<noteq> quoteChar" and "keepsCR dc f" and "peek rest \<noteq> Some quoteChar"
  shows "scan [dc] (escapeField js [dc] (Str f) @ rest) False field current rows =
           scan [dc] rest False (field @ f) current rows"
proof (cases "dc \<in> set f \<or> quoteChar \<in> set f \<or> LF \<in> set f")
  case True
  then have "escapeField js [dc] (Str f) @ rest = quoteChar # doubleQuotes f @ quoteChar # rest"
    by (simp add: escapeField_Str)
  then show ?thesis
    using assms(3) by (simp add: scan_open_quote scan_quoted_content)
next
  case False
  then have raw: "\<forall>c \<in> set f. c \<noteq> quoteChar \<and> [c] \<noteq> [dc] \<and> c \<noteq> LF \<and> c \<noteq> CR"
    using assms(2) by (auto simp: keepsCR_def)
  have "escapeField js [dc] (Str f) = f"
    using False by (simp add: escapeField_Str)
  then show ?thesis
    using scan_raw [OF raw] by simp
qed

lemma arr_join_Cons: "xs \<noteq> [] \<Longrightarrow> arr_join (x # xs) sep = x @ sep @ arr_join xs sep"
  by (cases xs) simp_all

lemma scan_line:
  assumes "dc \<noteq> quoteChar" and "fs \<noteq> []" and "\<forall>f \<in> set fs. keepsCR dc f"
    and "peek rest \<noteq> Some quoteChar"
  shows "scan [dc] (arr_join (map (\<lambda>f. escapeField js [dc] (Str f)) fs) [dc] @ rest)
             False [] current rows =
           scan [dc] rest False (last fs) (current @ butlast fs) rows"
  using assms(2,3)
proof (induction fs arbitrary: current rule: list_nonempty_induct)
  case (single f)
  then show ?case
    using scan_field [OF assms(1) _ assms(4), of f js "[]" current rows] by simp
next
  case (cons f fs)
  have sep: "peek (dc # arr_join (map (\<lambda>f. escapeField js [dc] (Str f)) fs) [dc] @ rest) \<noteq> Some quoteChar"
    using assms(1) by (simp add: peek_def)
  have "scan [dc] (arr_join (map (\<lambda>f. escapeField js [dc] (Str f)) (f # fs)) [dc] @ rest)
             False [] current rows =
        scan [dc] (dc # arr_join (map (\<lambda>f. escapeField js [dc] (Str f)) fs) [dc] @ rest)
             False f current rows"
    using cons.hyps cons.prems scan_field [OF assms(1) _ sep, of f js "[]" current rows]
    by (simp add: arr_join_Cons)
  also have "\<dots> = scan [dc] (arr_join (map (\<lambda>f. escapeField js [dc] (Str f)) fs) [dc] @ rest)
             False [] (current @ [f]) rows"
    using assms(1) by (simp add: scan_delimiter)
  also have "\<dots> = scan [dc] rest False (last fs) ((current @ [f]) @ butlast fs) rows"
    using cons.IH [of "current @ [f]"] cons.prems by simp
  finally show ?case
    using cons.hyps by simp
qed

lemma emit_nonblank: "\<not> isBlankRow l \<Longrightarrow> emit l rows = rows @ [l]"
  by (cases l) (auto simp: emit_def isBlankRow_def list_ex_iff list_all_iff)

lemma scan_lines:
  assumes "dc \<noteq> quoteChar" and "dc \<noteq> LF" and "ls \<noteq> []"
    and "\<forall>l \<in> set ls. \<not> isBlankRow l \<and> (\<forall>f \<in> set l. keepsCR dc f)"
  shows "scan [dc]
           (arr_join (map (\<lambda>l. arr_join (map (\<lambda>f. escapeField js [dc] (Str f)) l) [dc]) ls) [LF])
           False [] [] rows = rows @ ls"
  using assms(3,4)
proof (induction ls arbitrary: rows rule: list_nonempty_induct)
  case (single l)
  then have l: "l \<noteq> []" "\<not> isBlankRow l" "\<forall>f \<in> set l. keepsCR dc f"
    by (auto simp: isBlankRow_def)
  have "scan [dc] (arr_join (map (\<lambda>f. escapeField js [dc] (Str f)) l) [dc] @ []) False [] [] rows =
          scan [dc] [] False (last l) ([] @ butlast l) rows"
    by (rule scan_line [OF assms(1) l(1) l(3)]) (simp add: peek_def)
  then show ?case
    using l by (simp add: emit_nonblank)
next
  case (cons l ls)
  then have l: "l \<noteq> []" "\<not> isBlankRow l" "\<forall>f \<in> set l. keepsCR dc f"
    by (auto simp: isBlankRow_def)
  let ?line = "\<lambda>l. arr_join (map (\<lambda>f. escapeField js [dc] (Str f)) l) [dc]"
  have "scan [dc] (?line l @ LF # arr_join (map ?line ls) [LF]) False [] [] rows =
          scan [dc] (LF # arr_join (map ?line ls) [LF]) False (last l) ([] @ butlast l) rows"
    by (rule scan_line [OF assms(1) l(1) l(3)]) (simp add: peek_def)
  also have "\<dots> = scan [dc] (arr_join (map ?line ls) [LF]) False [] [] (rows @ [l])"
    using assms(2) l by (simp add: scan_newline emit_nonblank)
  also have "\<dots> = (rows @ [l]) @ ls"
    using cons.IH [of "rows @ [l]"] cons.prems by simp
  finally show ?case
    using cons.hyps by (simp add: arr_join_Cons)
qed

lemma get_prop_own: "distinct (keys r) \<Longrightarrow> (k, v) \<in> set r \<Longrightarrow> get_prop r k = v"
  by (simp add: get_prop_def keys_def)

lemma values_of_keys:
  assumes "distinct (keys r)"
  shows "map (get_prop r) (keys r) = map snd r"
proof -
  have "get_prop r (fst p) = snd p" if "p \<in> set r" for p
    using get_prop_own [OF assms, of "fst p" "snd p"] that by simp
  then show ?thesis
    by (simp add: keys_def)
qed

lemma Str_strOf: "isStr v \<Longrightarrow> Str (strOf v) = v"
  by (cases v) (simp_all add: isStr_def strOf_def)

lemma cell_nth: "i < length row \<Longrightarrow> cell row i = row ! i"
  by (simp add: cell_def)

lemma toObject_values:
  assumes "distinct (keys row)" and "''__proto__'' \<notin> set (keys row)" and "keyOrdered (keys row)"
    and "list_all isStr (map snd row)"
  shows "toObject (keys row) (map strOf (map snd row)) = row"
proof (rule nth_equalityI)
  show len: "length (toObject (keys row) (map strOf (map snd row))) = length row"
    unfolding toObject_ordered [OF assms(1-3)] by (simp add: keys_def)
  fix i
  assume "i < length (toObject (keys row) (map strOf (map snd row)))"
  then have i: "i < length row"
    using len by simp
  then have "isStr (snd (row ! i))"
    using assms(4) by (simp add: list_all_length)
  then show "toObject (keys row) (map strOf (map snd row)) ! i = row ! i"
    unfolding toObject_ordered [OF assms(1-3)] using i
    by (simp add: keys_def cell_nth Str_strOf)
qed

lemma escapeField_isStr: "isStr v \<Longrightarrow> escapeField js d v = escapeField js d (Str (strOf v))"
  by (simp add: Str_strOf)

lemma line_of_record:
  assumes "distinct (keys row)" and "list_all isStr (map snd row)"
  shows "map (\<lambda>h. escapeField js d (get_prop row h)) (keys row) =
           map (\<lambda>f. escapeField js d (Str f)) (map strOf (map snd row))"
proof -
  have "map (\<lambda>h. escapeField js d (get_prop row h)) (keys row) =
          map (escapeField js d) (map (get_prop row) (keys row))"
    by simp
  also have "\<dots> = map (escapeField js d) (map snd row)"
    using values_of_keys [OF assms(1)] by simp
  also have "\<dots> = map (\<lambda>f. escapeField js d (Str f)) (map strOf (map snd row))"
    using assms(2) by (simp add: list_all_iff Str_strOf)
  finally show ?thesis .
qed

lemma stringifyCSV_lines:
  assumes "data \<noteq> []" and "distinct (keys (hd data))"
    and "\<forall>row \<in> set data. keys row = keys (hd data) \<and> list_all isStr (map snd row)"
  shows "stringifyCSV js data d =
           arr_join (map (\<lambda>l. arr_join (map (\<lambda>f. escapeField js d (Str f)) l) d)
                      (keys (hd data) # map (\<lambda>row. map strOf (map snd row)) data)) [LF]"
proof -
  have "map (\<lambda>row. arr_join (map (\<lambda>h. escapeField js d (get_prop row h)) (keys (hd data))) d) data =
          map (\<lambda>row. arr_join (map (\<lambda>f. escapeField js d (Str f)) (map strOf (map snd row))) d) data"
  proof (rule map_cong [OF refl])
    fix row
    assume "row \<in> set data"
    then show "arr_join (map (\<lambda>h. escapeField js d (get_prop row h)) (keys (hd data))) d =
          arr_join (map (\<lambda>f. escapeField js d (Str f)) (map strOf (map snd row))) d"
      using line_of_record [of row js d] assms(2,3) by auto
  qed
  then have "arr_join (arr_join (map (\<lambda>h. escapeField js d (Str h)) (keys (hd data))) d
               # map (\<lambda>row. arr_join (map (\<lambda>h. escapeField js d (get_prop row h)) (keys (hd data))) d) data) [LF] =
             arr_join (arr_join (map (\<lambda>h. escapeField js d (Str h)) (keys (hd data))) d
               # map (\<lambda>row. arr_join (map (\<lambda>f. escapeField js d (Str f)) (map strOf (map snd row))) d) data) [LF]"
    by (rule arg_cong2 [where f = "\<lambda>x y. arr_join (x # y) [LF]", OF refl])
  moreover have "stringifyCSV js data d =
      arr_join (arr_join (map (\<lambda>h. escapeField js d (Str h)) (keys (hd data))) d
               # map (\<lambda>row. arr_join (map (\<lambda>h. escapeField js d (get_prop row h)) (keys (hd data))) d) data) [LF]"
    using assms(1) by (simp add: stringifyCSV_def Let_def)
  ultimately show ?thesis
    by (simp only: list.map map_map comp_def)
qed

lemma blank_values:
  assumes "list_all isStr vs" and "list_ex (\<lambda>v. v \<noteq> Str []) vs"
  shows "\<not> isBlankRow (map strOf vs)"
proof -
  obtain v where v: "v \<in> set vs" "v \<noteq> Str []"
    using assms(2) by (auto simp: list_ex_iff)
  then have "isStr v"
    using assms(1) by (simp add: list_all_iff)
  then have "strOf v \<noteq> []"
    using v(2) Str_strOf by fastforce
  then show ?thesis
    using v(1) by (auto simp: isBlankRow_def list_all_iff)
qed

subsection \<open>The round trip\<close>

text \<open>
  C1 (as amended). A dataset with at least one record comes back from \<open>stringifyCSV\<close> and
  \<open>parseCSV\<close> as it went in, for a delimiter of one character that is neither the quote
  character nor the line feed, when: the records have the keys of the first record, in
  its order, and strings as values; no key is \<^verbatim>\<open>__proto__\<close>; one key is not the empty string,
  and every record has a value that is not the empty string; a key or a value with a
  carriage return in it also holds the delimiter, a quote character or a line feed (so
  that it is written between quotes).
\<close>

theorem csv_round_trip:
  assumes "data \<noteq> []" and "dc \<noteq> quoteChar" and "dc \<noteq> LF"
    and "roundTripHeader dc (keys (hd data))"
    and "\<forall>row \<in> set data. roundTripRecord dc (keys (hd data)) row"
  shows "parseCSV (stringifyCSV js data [dc]) [dc] = data"
proof -
  let ?hs = "keys (hd data)"
  let ?rows = "map (\<lambda>row. map strOf (map snd row)) data"
  have hs: "distinct ?hs" "keyOrdered ?hs" "''__proto__'' \<notin> set ?hs"
    using assms(4) by (simp_all add: roundTripHeader_def)
  have recs: "\<forall>row \<in> set data. keys row = ?hs \<and> list_all isStr (map snd row)"
    using assms(5) by (simp add: roundTripRecord_def)
  have "\<not> isBlankRow ?hs \<and> (\<forall>f \<in> set ?hs. keepsCR dc f)"
    using assms(4) by (auto simp: roundTripHeader_def isBlankRow_def list_ex_iff list_all_iff)
  moreover have "\<not> isBlankRow l \<and> (\<forall>f \<in> set l. keepsCR dc f)" if l: "l \<in> set ?rows" for l
  proof -
    obtain row where row: "row \<in> set data" "l = map strOf (map snd row)"
      using l unfolding set_map by blast
    then have "roundTripRecord dc ?hs row"
      using assms(5) by blast
    then show ?thesis
      unfolding row(2) roundTripRecord_def using blank_values [of "map snd row"]
      by (auto simp: list_all_iff)
  qed
  ultimately have ok: "\<forall>l \<in> set (?hs # ?rows). \<not> isBlankRow l \<and> (\<forall>f \<in> set l. keepsCR dc f)"
    by auto
  have "tokenize (stringifyCSV js data [dc]) [dc] = ?hs # ?rows"
    unfolding stringifyCSV_lines [OF assms(1) hs(1) recs] tokenize_def
    using scan_lines [OF assms(2,3) _ ok, of js "[]"] by simp
  then have "parseCSV (stringifyCSV js data [dc]) [dc] = map (toObject ?hs) ?rows"
    by (simp add: parseCSV_def toRecords_def)
  also have "\<dots> = data"
  proof -
    have "toObject ?hs (map strOf (map snd row)) = row" if "row \<in> set data" for row
      using toObject_values [of row] hs recs that by auto
    then show ?thesis
      by (simp add: map_idI)
  qed
  finally show ?thesis .
qed

theorem csv_round_trip_witness:
  \<open>[[(''name'', Str ''Ann, "A"''), (''note'', Str [CHR ''x'', CR, LF, CHR ''y''])],
     [(''name'', Str ''''), (''note'', Str ''z'')]] \<noteq> []
    \<and> CHR '','' \<noteq> quoteChar \<and> CHR '','' \<noteq> LF
    \<and> roundTripHeader (CHR '','') [''name'', ''note'']
    \<and> list_all (roundTripRecord (CHR '','') [''name'', ''note''])
         [[(''name'', Str ''Ann, "A"''), (''note'', Str [CHR ''x'', CR, LF, CHR ''y''])],
          [(''name'', Str ''''), (''note'', Str ''z'')]]
    \<and> stringifyCSV example_platform
         [[(''name'', Str ''Ann, "A"''), (''note'', Str [CHR ''x'', CR, LF, CHR ''y''])],
          [(''name'', Str ''''), (''note'', Str ''z'')]] '',''
        = ''name,note\<newline>"Ann, ""A""","x'' @ [CR, LF] @ ''y"\<newline>,z''
    \<and> parseCSV (stringifyCSV example_platform
           [[(''name'', Str ''Ann, "A"''), (''note'', Str [CHR ''x'', CR, LF, CHR ''y''])],
            [(''name'', Str ''''), (''note'', Str ''z'')]] '','') '','' =
         [[(''name'', Str ''Ann, "A"''), (''note'', Str [CHR ''x'', CR, LF, CHR ''y''])],
          [(''name'', Str ''''), (''note'', Str ''z'')]]\<close>
proof -
  let ?data = \<open>[[(''name'', Str ''Ann, "A"''), (''note'', Str [CHR ''x'', CR, LF, CHR ''y''])],
     [(''name'', Str ''''), (''note'', Str ''z'')]]\<close>
  have d: "CHR '','' \<noteq> quoteChar" "CHR '','' \<noteq> LF" "?data \<noteq> []"
    by simp_all
  have h: "roundTripHeader (CHR '','') [''name'', ''note'']"
    by (simp add: roundTripHeader_def isArrayIndex_def isDigit_def charCode_def keepsCR_def)
  have r: "list_all (roundTripRecord (CHR '','') [''name'', ''note'']) ?data"
    by (simp add: roundTripRecord_def keys_def isStr_def strOf_def keepsCR_def)
  have k: "keys (hd ?data) = [''name'', ''note'']"
    by (simp add: keys_def)
  have s: \<open>stringifyCSV example_platform ?data '',''
        = ''name,note\<newline>"Ann, ""A""","x'' @ [CR, LF] @ ''y"\<newline>,z''\<close>
    by code_simp
  show ?thesis
    using csv_round_trip [of ?data "CHR '',''" example_platform] d h r s unfolding k list_all_iff
    by blast
qed

text \<open>
  C1 as stated fails for a record whose values are all empty: its line is blank, and the
  tokenizer discards a blank line. The dataset \<open>[{a: 1}, {a: ''}]\<close> is written as
  \<^verbatim>\<open>a\n1\n\<close> and read back as \<open>[{a: 1}]\<close>.
\<close>

theorem blank_record_counterexample:
  "stringifyCSV example_platform [[(''a'', Str ''1'')], [(''a'', Str '''')]] '','' = ''a\<newline>1\<newline>''
    \<and> parseCSV (stringifyCSV example_platform [[(''a'', Str ''1'')], [(''a'', Str '''')]] '','') '',''
        = [[(''a'', Str ''1'')]]"
proof -
  have s: "stringifyCSV example_platform [[(''a'', Str ''1'')], [(''a'', Str '''')]] '','' = ''a\<newline>1\<newline>''"
    by code_simp
  have "parseCSV ''a\<newline>1\<newline>'' '','' = [[(''a'', Str ''1'')]]"
    by code_simp
  then show ?thesis
    using s by simp
qed

text \<open>A carriage return in a field that is written without quotes is lost as well:
  \<open>escapeField\<close> puts quotes around a line feed, not around a carriage return, and the
  tokenizer drops a carriage return outside quotes.\<close>

lemma carriage_return_lost:
  "parseCSV (stringifyCSV example_platform [[(''a'', Str [CHR ''x'', CR, CHR ''y''])]] '','') '',''
     = [[(''a'', Str ''xy'')]]"
proof -
  have s: "stringifyCSV example_platform [[(''a'', Str [CHR ''x'', CR, CHR ''y''])]] '','' = [CHR ''a'', LF, CHR ''x'', CR, CHR ''y'']"
    by code_simp
  have "parseCSV [CHR ''a'', LF, CHR ''x'', CR, CHR ''y''] '','' = [[(''a'', Str ''xy'')]]"
    by code_simp
  then show ?thesis
    using s by simp
qed

text \<open>The other conditions of the round trip are needed as well: with the quote character
  or the line feed as the delimiter, with a header of empty names, or with an own key
  \<^verbatim>\<open>__proto__\<close>, the dataset does not come back.\<close>

lemma quote_delimiter_lost:
  "parseCSV (stringifyCSV example_platform [[(''a'', Str ''1''), (''b'', Str ''2'')]] [quoteChar])
     [quoteChar] = []"
  by code_simp

lemma line_feed_delimiter_lost:
  "parseCSV (stringifyCSV example_platform [[(''a'', Str ''1''), (''b'', Str ''2'')]] [LF]) [LF] = []"
  by code_simp

lemma blank_header_lost:
  "parseCSV (stringifyCSV example_platform [[([], Str ''x'')]] '','') '','' = []"
  by code_simp

lemma proto_key_lost:
  "parseCSV (stringifyCSV example_platform [[(''__proto__'', Str ''x''), (''a'', Str ''y'')]] '','')
     '','' = [[(''a'', Str ''y'')]]"
  by code_simp

section \<open>\<^verbatim>\<open>filter\<close>\<close>

subsection \<open>The numeric operators\<close>

lemma arr_filter_total: "arr_filter (\<lambda>x. Inr (p x)) xs = Inr (filter p xs)"
  by (induction xs) simp_all

lemma js_lt_num_less: "js_lt x y \<longleftrightarrow> num_less x y"
  by (cases x; cases y) (auto simp: js_lt_def isLessThan_def num_less_def num_le_def)

lemma js_gt_num_less: "js_gt x y \<longleftrightarrow> num_less y x"
  by (cases x; cases y) (auto simp: js_gt_def isLessThan_def num_less_def num_le_def)

lemma js_lte_num_le: "js_lte x y \<longleftrightarrow> num_le x y"
  by (cases x; cases y) (auto simp: js_lte_def isLessThan_def num_le_def)

lemma js_gte_num_le: "js_gte x y \<longleftrightarrow> num_le y x"
  by (cases x; cases y) (auto simp: js_gte_def isLessThan_def num_le_def)

lemma filter_data_gt:
  "str_toLowerCase operator = ''gt'' \<Longrightarrow>
     filter_data js data column operator val =
       Inr (filter (\<lambda>row. num_less (parseFloat js val) (parseFloat js (get_prop row column))) data)"
  by (simp add: filter_data_def ops_def arr_filter_total js_gt_num_less)

lemma filter_data_lt:
  "str_toLowerCase operator = ''lt'' \<Longrightarrow>
     filter_data js data column operator val =
       Inr (filter (\<lambda>row. num_less (parseFloat js (get_prop row column)) (parseFloat js val)) data)"
  by (simp add: filter_data_def ops_def arr_filter_total js_lt_num_less)

lemma filter_data_gte:
  "str_toLowerCase operator = ''gte'' \<Longrightarrow>
     filter_data js data column operator val =
       Inr (filter (\<lambda>row. num_le (parseFloat js val) (parseFloat js (get_prop row column))) data)"
  by (simp add: filter_data_def ops_def arr_filter_total js_gte_num_le)

lemma filter_data_lte:
  "str_toLowerCase operator = ''lte'' \<Longrightarrow>
     filter_data js data column operator val =
       Inr (filter (\<lambda>row. num_le (parseFloat js (get_prop row column)) (parseFloat js val)) data)"
  by (simp add: filter_data_def ops_def arr_filter_total js_lte_num_le)

lemma pf25: "parseFloatString ''25'' = Finite 25" by code_simp
lemma pf40: "parseFloatString ''40'' = Finite 40" by code_simp
lemma pf30: "parseFloatString ''30'' = Finite 30" by code_simp
lemma pfabc: "parseFloatString ''abc'' = NaN" by code_simp

lemma filter_age_example:
  "filter_data example_platform
       [[(''age'', Str ''25'')], [(''age'', Str ''40'')], [(''age'', Str ''abc'')]]
       ''age'' ''gt'' (Str ''30'') = Inr [[(''age'', Str ''40'')]]"
proof -
  have "str_toLowerCase ''gt'' = ''gt''"
    by code_simp
  then show ?thesis
    by (simp add: filter_data_gt parseFloat_def ToString_def get_prop_def pf25 pf40 pf30 pfabc
        num_less_def num_le_def)
qed

text \<open>
  C8. With the operator \<open>gt\<close>, \<open>lt\<close>, \<open>gte\<close> or \<open>lte\<close> (in any case of letters), \<open>filter\<close>
  returns, without an exception and in their order, the rows for which \<^verbatim>\<open>parseFloat\<close> of the
  row's value and of the comparison value are both numbers (not NaN) and the comparison
  of the two numbers holds; a row whose value gives NaN is not among them. With the ages
  25, 40 and abc, \<open>age gt 30\<close> returns the row of 40 only.
\<close>

theorem filter_numeric_operators:
  "(str_toLowerCase operator = ''gt'' \<longrightarrow>
      filter_data js data column operator val =
        Inr (filter (\<lambda>row. num_less (parseFloat js val) (parseFloat js (get_prop row column))) data))
    \<and> (str_toLowerCase operator = ''lt'' \<longrightarrow>
      filter_data js data column operator val =
        Inr (filter (\<lambda>row. num_less (parseFloat js (get_prop row column)) (parseFloat js val)) data))
    \<and> (str_toLowerCase operator = ''gte'' \<longrightarrow>
      filter_data js data column operator val =
        Inr (filter (\<lambda>row. num_le (parseFloat js val) (parseFloat js (get_prop row column))) data))
    \<and> (str_toLowerCase operator = ''lte'' \<longrightarrow>
      filter_data js data column operator val =
        Inr (filter (\<lambda>row. num_le (parseFloat js (get_prop row column)) (parseFloat js val)) data))
    \<and> (str_toLowerCase operator \<in> {''gt'', ''lt'', ''gte'', ''lte''} \<longrightarrow>
      (\<exists>rows. filter_data js data column operator val = Inr rows
        \<and> (\<forall>row \<in> set rows. parseFloat js (get_prop row column) \<noteq> NaN \<and> parseFloat js val \<noteq> NaN)))
    \<and> filter_data example_platform
         [[(''age'', Str ''25'')], [(''age'', Str ''40'')], [(''age'', Str ''abc'')]]
         ''age'' ''gt'' (Str ''30'') = Inr [[(''age'', Str ''40'')]]"
proof -
  have "\<exists>rows. filter_data js data column operator val = Inr rows
        \<and> (\<forall>row \<in> set rows. parseFloat js (get_prop row column) \<noteq> NaN \<and> parseFloat js val \<noteq> NaN)"
    if op: "str_toLowerCase operator \<in> {''gt'', ''lt'', ''gte'', ''lte''}"
  proof -
    consider "str_toLowerCase operator = ''gt''" | "str_toLowerCase operator = ''lt''"
      | "str_toLowerCase operator = ''gte''" | "str_toLowerCase operator = ''lte''"
      using op by blast
    then show ?thesis
    proof cases
      case 1
      then show ?thesis by (simp add: filter_data_gt num_less_def num_le_def)
    next
      case 2
      then show ?thesis by (simp add: filter_data_lt num_less_def num_le_def)
    next
      case 3
      then show ?thesis by (simp add: filter_data_gte num_le_def)
    next
      case 4
      then show ?thesis by (simp add: filter_data_lte num_le_def)
    qed
  qed
  then show ?thesis
    using filter_data_gt [of operator js data column val] filter_data_lt [of operator js data column val]
      filter_data_gte [of operator js data column val] filter_data_lte [of operator js data column val]
      filter_age_example
    by blast
qed

theorem filter_numeric_operators_witness:
  "str_toLowerCase ''GTE'' = ''gte'' \<and> str_toLowerCase ''GTE'' \<in> {''gt'', ''lt'', ''gte'', ''lte''}
    \<and> filter_data example_platform [[(''age'', Str ''25'')], [(''age'', Str ''abc'')]] ''age'' ''GTE'' (Str ''25'')
        = Inr [[(''age'', Str ''25'')]]"
proof -
  have l: "str_toLowerCase ''GTE'' = ''gte''"
    by code_simp
  have "filter (\<lambda>row. num_le (parseFloat example_platform (Str ''25''))
            (parseFloat example_platform (get_prop row ''age'')))
          [[(''age'', Str ''25'')], [(''age'', Str ''abc'')]] = [[(''age'', Str ''25'')]]"
    by (simp add: parseFloat_def ToString_def get_prop_def pf25 pfabc num_le_def)
  then show ?thesis
    using filter_numeric_operators
      [of "''GTE''" example_platform "[[(''age'', Str ''25'')], [(''age'', Str ''abc'')]]"
        "''age''" "Str ''25''"] l
    by simp
qed

subsection \<open>The operator \<open>regex\<close>\<close>

lemma arr_filter_error:
  "xs \<noteq> [] \<Longrightarrow> arr_filter (\<lambda>x. Inl e) xs = Inl e"
  by (cases xs) simp_all

text \<open>
  C4 (as amended). With the operator \<open>regex\<close>, the pattern is compiled once for each row,
  with the flag \<^verbatim>\<open>i\<close>. On the empty dataset \<open>filter\<close> returns the empty dataset, whatever the
  pattern. On a dataset with a row, a pattern that does not compile ends the call with a
  SyntaxError; a pattern that compiles gives, without an exception, the rows whose value
  the regular expression matches.
\<close>

theorem filter_regex_compiles_per_row:
  "(str_toLowerCase operator = ''regex'' \<longrightarrow>
      filter_data js [] column operator val = Inr [])
    \<and> (str_toLowerCase operator = ''regex'' \<and> data \<noteq> []
        \<and> \<not> RegExp_syntaxOk js (if val = Undefined then [] else ToString js val) ''i'' \<longrightarrow>
      filter_data js data column operator val = Inl SyntaxError)
    \<and> (str_toLowerCase operator = ''regex''
        \<and> RegExp_syntaxOk js (if val = Undefined then [] else ToString js val) ''i'' \<longrightarrow>
      filter_data js data column operator val =
        Inr (filter (\<lambda>row. RegExp_test js (if val = Undefined then [] else ToString js val, ''i'')
                             (ToString js (get_prop row column))) data))"
  by (simp add: filter_data_def ops_def RegExp_new_def arr_filter_total arr_filter_error)

lemma lower_regex: "str_toLowerCase ''regex'' = ''regex''"
  by code_simp

theorem filter_regex_compiles_per_row_witness:
  "str_toLowerCase ''regex'' = ''regex'' \<and> [[(''name'', Str ''Alice'')], [(''name'', Str ''Bob'')]] \<noteq> []
    \<and> \<not> RegExp_syntaxOk example_platform (ToString example_platform (Str ''('')) ''i''
    \<and> filter_data example_platform [[(''name'', Str ''Alice'')], [(''name'', Str ''Bob'')]]
         ''name'' ''regex'' (Str ''('') = Inl SyntaxError
    \<and> RegExp_syntaxOk example_platform (ToString example_platform (Str ''ali'')) ''i''
    \<and> filter_data example_platform [[(''name'', Str ''Alice'')], [(''name'', Str ''Bob'')]]
         ''name'' ''regex'' (Str ''ali'') = Inr [[(''name'', Str ''Alice'')]]"
proof -
  let ?data = "[[(''name'', Str ''Alice'')], [(''name'', Str ''Bob'')]]"
  have bad: "\<not> RegExp_syntaxOk example_platform (ToString example_platform (Str ''('')) ''i''"
    by code_simp
  have good: "RegExp_syntaxOk example_platform (ToString example_platform (Str ''ali'')) ''i''"
    by code_simp
  have rows: "filter (\<lambda>row. RegExp_test example_platform (ToString example_platform (Str ''ali''), ''i'')
                 (ToString example_platform (get_prop row ''name''))) ?data = [[(''name'', Str ''Alice'')]]"
    by code_simp
  show ?thesis
    using filter_regex_compiles_per_row [of "''regex''" example_platform "''name''" "Str ''(''" ?data]
      filter_regex_compiles_per_row [of "''regex''" example_platform "''name''" "Str ''ali''" ?data]
      lower_regex bad good rows
    by simp
qed

text \<open>
  C4 as stated fails on the empty dataset: the pattern \<^verbatim>\<open>(\<close> does not compile, and
  \<open>filter\<close> on no rows returns no rows without an exception.
\<close>

theorem filter_regex_empty_counterexample:
  "RegExp_new example_platform ''('' ''i'' = Inl SyntaxError
    \<and> filter_data example_platform [] ''name'' ''regex'' (Str ''('') = Inr []"
proof -
  have "RegExp_new example_platform ''('' ''i'' = Inl SyntaxError"
    by code_simp
  moreover have "filter_data example_platform [] ''name'' ''regex'' (Str ''('') = Inr []"
    using lower_regex by (simp add: filter_data_def ops_def)
  ultimately show ?thesis by blast
qed

section \<open>\<^verbatim>\<open>transform\<close>\<close>

subsection \<open>Decimal literals\<close>








lemma isDigit_dot: "\<not> isDigit (CHR ''.'')"
  by (simp add: isDigit_def charCode_def)

















subsection \<open>Whole-word occurrences\<close>














subsection \<open>The replacement of a column name\<close>




text \<open>The replacement text is not escaped. A \<^verbatim>\<open>$\<close> pattern in it is expanded: for the
  value \<^verbatim>\<open>$&\<close> the name \<^verbatim>\<open>a\<close> is replaced by \<^verbatim>\<open>"a"\<close>. And the name of a later column that
  stands in the value of an earlier one is replaced in its turn.\<close>

lemma dollar_pattern_expanded:
  "substitute example_platform [(''a'', Str ''$&'')] ''a'' = Inr [quoteChar, CHR ''a'', quoteChar]"
  by code_simp

lemma later_column_rewrites_value:
  "substitute example_platform [(''a'', Str ''b''), (''b'', Str ''x'')] ''a''
     = Inr [quoteChar, quoteChar, CHR ''x'', quoteChar, quoteChar]"
  by code_simp

subsection \<open>The derived column\<close>











text \<open>A new name that is an array index is not appended at the end either: it is placed
  among the array indices, before every other key.\<close>

lemma index_name_placed_first:
  "transform example_platform 0 [[(''a'', Str ''1'')]] ''0=1''
     = Some (Inr [Some [(''0'', Num (Finite 1)), (''a'', Str ''1'')]])"
  by code_simp

text \<open>The evaluated text runs in the scope of the callback. An assignment to \<^verbatim>\<open>newRow\<close> in
  the body changes a column that was there before.\<close>

lemma evaluation_writes_record:
  "matchExpression ''x=(newRow[Object.keys(newRow)[0]]=7)''
       = Some (''x'', ''(newRow[Object.keys(newRow)[0]]=7)'')
     \<and> transform assigning_platform 0 [[(''p'', Str ''1'')]] ''x=(newRow[Object.keys(newRow)[0]]=7)''
       = Some (Inr [Some [(''p'', Num (Finite 7)), (''x'', Num (Finite 7))]])"
proof -
  have "matchExpression ''x=(newRow[Object.keys(newRow)[0]]=7)''
       = Some (''x'', ''(newRow[Object.keys(newRow)[0]]=7)'')"
    by code_simp
  moreover have "transform assigning_platform 0 [[(''p'', Str ''1'')]] ''x=(newRow[Object.keys(newRow)[0]]=7)''
       = Some (Inr [Some [(''p'', Num (Finite 7)), (''x'', Num (Finite 7))]])"
    by code_simp
  ultimately show ?thesis by blast
qed

text \<open>The regular expression of a column is compiled outside the \<^verbatim>\<open>try\<close>: for a column
  named \<^verbatim>\<open>(\<close> the pattern \<^verbatim>\<open>\b(\b\<close> does not compile, and the SyntaxError ends the whole
  call.\<close>

lemma column_name_not_compiled:
  "parseCSV ''(\<newline>1'' '','' = [[(''('', Str ''1'')]]
     \<and> transform example_platform 0 [[(''('', Str ''1'')]] ''x=1'' = Some (Inl SyntaxError)"
proof -
  have "parseCSV ''(\<newline>1'' '','' = [[(''('', Str ''1'')]]"
    by code_simp
  moreover have "transform example_platform 0 [[(''('', Str ''1'')]] ''x=1'' = Some (Inl SyntaxError)"
    by code_simp
  ultimately show ?thesis by blast
qed

end
